theory Spec2Isabelle
  imports Complex_Main
begin

section \<open>JavaScript numbers\<close>

text \<open>
  The numbers of \<^verbatim>\<open>src/main.js\<close> are JavaScript numbers: IEEE 754 binary64 values. A
  finite value is modelled by the rational it denotes, next to the three special values
  (\<^verbatim>\<open>Infinity\<close>, \<^verbatim>\<open>-Infinity\<close>, \<^verbatim>\<open>NaN\<close>). Every arithmetic operation rounds its exact
  result to the nearest double, ties to the even significand, as the machine does. The
  sign of zero is not modelled: a zero is \<^verbatim>\<open>+0\<close>.
\<close>

text \<open>Where a value that the browser supplies (layout, pointer position) has the type
  \<open>rat\<close>, it is the rational that a finite double denotes.\<close>

datatype jsnum = Number rat | PosInfinity | NegInfinity | NaN

definition signed_infinity :: "bool \<Rightarrow> jsnum" where
  "signed_infinity positive = (if positive then PosInfinity else NegInfinity)"

definition pow2 :: "int \<Rightarrow> rat" where
  "pow2 e = (if 0 \<le> e then 2 ^ nat e else 1 / 2 ^ nat (- e))"

function bit_length :: "int \<Rightarrow> int" where
  "bit_length n = (if n \<le> 0 then 0 else bit_length (n div 2) + 1)"
  by pat_completeness auto
termination
  by (relation "measure nat") auto

text \<open>The exponent \<open>e\<close> of a positive rational: \<open>2^e \<le> a < 2^(e + 1)\<close>.\<close>

definition binary_exponent :: "rat \<Rightarrow> int" where
  "binary_exponent a =
     (let (p, q) = quotient_of a;
          k = bit_length p - bit_length q
      in if pow2 k \<le> a then k else k - 1)"

definition round_half_even :: "rat \<Rightarrow> int" where
  "round_half_even m =
     (let n = \<lfloor>m\<rfloor>; r = m - of_int n
      in if r < 1 / 2 then n else if 1 / 2 < r then n + 1 else if even n then n else n + 1)"

text \<open>
  Rounding to binary64: 53 bits of significand, the exponent of the leading bit between
  -1022 (below it the values are subnormal, in steps of \<open>2^-1074\<close>) and 1023; what rounds
  to \<open>2^1024\<close> or more is infinite.
\<close>

definition round_to_double :: "rat \<Rightarrow> jsnum" where
  "round_to_double q =
     (if q = 0 then Number 0
      else
        (let a = \<bar>q\<bar>; e = max (binary_exponent a) (- 1022)
         in if 1023 < e then signed_infinity (0 < q)
            else
              (let ulp = pow2 (e - 52); n = round_half_even (a / ulp)
               in if e = 1023 \<and> n = 9007199254740992 then signed_infinity (0 < q)
                  else Number ((if 0 < q then 1 else - 1) * of_int n * ulp))))"

text \<open>A decimal literal of the configuration, such as \<^verbatim>\<open>0.7\<close>, denotes the nearest
  double.\<close>

definition js_literal :: "rat \<Rightarrow> jsnum" where
  "js_literal q = round_to_double q"

fun js_add :: "jsnum \<Rightarrow> jsnum \<Rightarrow> jsnum" where
  "js_add (Number a) (Number b) = round_to_double (a + b)"
| "js_add NaN _ = NaN"
| "js_add _ NaN = NaN"
| "js_add PosInfinity NegInfinity = NaN"
| "js_add NegInfinity PosInfinity = NaN"
| "js_add PosInfinity _ = PosInfinity"
| "js_add NegInfinity _ = NegInfinity"
| "js_add (Number a) b = b"

fun js_sub :: "jsnum \<Rightarrow> jsnum \<Rightarrow> jsnum" where
  "js_sub (Number a) (Number b) = round_to_double (a - b)"
| "js_sub NaN _ = NaN"
| "js_sub _ NaN = NaN"
| "js_sub PosInfinity PosInfinity = NaN"
| "js_sub NegInfinity NegInfinity = NaN"
| "js_sub PosInfinity _ = PosInfinity"
| "js_sub NegInfinity _ = NegInfinity"
| "js_sub (Number a) PosInfinity = NegInfinity"
| "js_sub (Number a) NegInfinity = PosInfinity"

fun js_mul :: "jsnum \<Rightarrow> jsnum \<Rightarrow> jsnum" where
  "js_mul (Number a) (Number b) = round_to_double (a * b)"
| "js_mul NaN _ = NaN"
| "js_mul _ NaN = NaN"
| "js_mul PosInfinity (Number b) = (if b = 0 then NaN else signed_infinity (0 < b))"
| "js_mul NegInfinity (Number b) = (if b = 0 then NaN else signed_infinity (b < 0))"
| "js_mul (Number a) PosInfinity = (if a = 0 then NaN else signed_infinity (0 < a))"
| "js_mul (Number a) NegInfinity = (if a = 0 then NaN else signed_infinity (a < 0))"
| "js_mul PosInfinity PosInfinity = PosInfinity"
| "js_mul NegInfinity NegInfinity = PosInfinity"
| "js_mul PosInfinity NegInfinity = NegInfinity"
| "js_mul NegInfinity PosInfinity = NegInfinity"

fun js_div :: "jsnum \<Rightarrow> jsnum \<Rightarrow> jsnum" where
  "js_div (Number a) (Number b) =
     (if b \<noteq> 0 then round_to_double (a / b)
      else if a = 0 then NaN
      else signed_infinity (0 < a))"
| "js_div NaN _ = NaN"
| "js_div _ NaN = NaN"
| "js_div (Number a) _ = Number 0"
| "js_div PosInfinity (Number b) = signed_infinity (0 \<le> b)"
| "js_div NegInfinity (Number b) = signed_infinity (b < 0)"
| "js_div _ _ = NaN"

text \<open>\<^verbatim>\<open>Math.ceil\<close>: the ceiling of a double is a double; the special values pass
  through.\<close>

fun js_ceil :: "jsnum \<Rightarrow> jsnum" where
  "js_ceil (Number a) = Number (of_int \<lceil>a\<rceil>)"
| "js_ceil x = x"

text \<open>The comparisons \<^verbatim>\<open><\<close> and \<^verbatim>\<open><=\<close>; every comparison with \<^verbatim>\<open>NaN\<close> is false.\<close>

fun js_lt :: "jsnum \<Rightarrow> jsnum \<Rightarrow> bool" where
  "js_lt (Number a) (Number b) = (a < b)"
| "js_lt NaN _ = False"
| "js_lt _ NaN = False"
| "js_lt _ NegInfinity = False"
| "js_lt PosInfinity _ = False"
| "js_lt _ _ = True"

fun js_le :: "jsnum \<Rightarrow> jsnum \<Rightarrow> bool" where
  "js_le (Number a) (Number b) = (a \<le> b)"
| "js_le NaN _ = False"
| "js_le _ NaN = False"
| "js_le NegInfinity _ = True"
| "js_le _ PosInfinity = True"
| "js_le _ _ = False"

definition js_gt :: "jsnum \<Rightarrow> jsnum \<Rightarrow> bool" where
  "js_gt a b = js_lt b a"

definition js_ge :: "jsnum \<Rightarrow> jsnum \<Rightarrow> bool" where
  "js_ge a b = js_le b a"

text \<open>
  \<^verbatim>\<open>Number.prototype.toString\<close> on the values this program converts, the results of
  \<^verbatim>\<open>Math.ceil\<close>, which are integers or special values. An integer \<open>v\<close> prints as the
  shortest digit string \<open>s\<close> (of \<open>k\<close> digits, at most 17) for which \<open>s * 10^(n - k)\<close>
  rounds to \<open>v\<close>, the closest to \<open>v\<close> where several are that short: followed by \<open>n - k\<close>
  zeros when \<open>n \<le> 21\<close>, in exponent notation otherwise.
\<close>

definition digit_char :: "int \<Rightarrow> char" where
  "digit_char d = ''0123456789'' ! nat d"

function digits_of :: "int \<Rightarrow> string" where
  "digits_of n =
     (if n < 10 then [digit_char n] else digits_of (n div 10) @ [digit_char (n mod 10)])"
  by pat_completeness auto
termination
  by (relation "measure nat") auto

text \<open>The pairs \<open>(s, n)\<close> with \<open>k\<close> digits in \<open>s\<close> that denote the positive integer \<open>v\<close>
  of \<open>nd\<close> digits.\<close>

definition digit_candidates :: "int \<Rightarrow> int \<Rightarrow> int \<Rightarrow> (int \<times> int) list" where
  "digit_candidates v nd k =
     filter
       (\<lambda>(s, n). 10 ^ nat (k - 1) \<le> s \<and> s < 10 ^ nat k
                 \<and> round_to_double (of_int (s * 10 ^ nat (n - k))) = Number (of_int v))
       (concat
          (map (\<lambda>n. if n < k then []
                     else [(v div 10 ^ nat (n - k), n), (v div 10 ^ nat (n - k) + 1, n)])
               [nd, nd + 1]))"

definition distance :: "int \<Rightarrow> int \<Rightarrow> int \<times> int \<Rightarrow> int" where
  "distance v k c = \<bar>fst c * 10 ^ nat (snd c - k) - v\<bar>"

fun closest :: "int \<Rightarrow> int \<Rightarrow> int \<times> int \<Rightarrow> (int \<times> int) list \<Rightarrow> int \<times> int" where
  "closest v k best [] = best"
| "closest v k best (c # cs) =
     closest v k (if distance v k c < distance v k best then c else best) cs"

definition shortest_digits :: "int \<Rightarrow> int \<times> int \<times> int" where
  "shortest_digits v =
     (let nd = int (length (digits_of v))
      in case find (\<lambda>k. digit_candidates v nd k \<noteq> [])
                [1, 2, 3, 4, 5, 6, 7, 8, 9, 10, 11, 12, 13, 14, 15, 16, 17] of
           None \<Rightarrow> (v, nd, nd)
         | Some k \<Rightarrow>
             (case digit_candidates v nd k of
                [] \<Rightarrow> (v, nd, nd)
              | c # cs \<Rightarrow> (let (s, n) = closest v k c cs in (s, n, k))))"

definition positive_toString :: "int \<Rightarrow> string" where
  "positive_toString v =
     (let (s, n, k) = shortest_digits v; digits = digits_of s
      in if n \<le> 21 then digits @ replicate (nat (n - k)) (CHR ''0'')
         else (if k = 1 then digits else hd digits # CHR ''.'' # tl digits)
              @ ''e+'' @ digits_of (n - 1))"

definition int_toString :: "int \<Rightarrow> string" where
  "int_toString i =
     (if i = 0 then ''0''
      else if i < 0 then CHR ''-'' # positive_toString (- i)
      else positive_toString i)"

fun js_toString :: "jsnum \<Rightarrow> string" where
  "js_toString (Number a) = int_toString \<lfloor>a\<rfloor>"
| "js_toString PosInfinity = ''Infinity''"
| "js_toString NegInfinity = ''-Infinity''"
| "js_toString NaN = ''NaN''"

section \<open>Values, the host page and the player\<close>

text \<open>
  DOM elements are identified by a number. The values that the options \<^verbatim>\<open>player\<close> and
  \<^verbatim>\<open>container\<close> can hold are: \<^verbatim>\<open>undefined\<close>, \<^verbatim>\<open>null\<close>, a primitive that is not a
  string (with its truthiness), a string, an object whose constructor is named
  \<^verbatim>\<open>AnimationItem\<close> (with its \<^verbatim>\<open>wrapper\<close> element, if any), an \<^verbatim>\<open>HTMLElement\<close>,
  and any other object (with the flag that it has a \<^verbatim>\<open>constructor\<close> property, as all
  but objects without prototype have).
\<close>

type_synonym element = nat

datatype jsval =
    Undefined
  | Null
  | Primitive bool
  | Str string
  | AnimationItem "element option"
  | HTMLElement element
  | Object bool

fun truthy :: "jsval \<Rightarrow> bool" where
  "truthy Undefined = False"
| "truthy Null = False"
| "truthy (Primitive b) = b"
| "truthy (Str s) = (s \<noteq> [])"
| "truthy _ = True"

datatype js_error = Error string | TypeError | SyntaxError | EngineError

record action =
  action_start :: jsnum
  action_end :: jsnum
  action_type :: string
  action_frames :: "jsnum list option"

record DOMRect =
  rect_top :: rat
  rect_bottom :: rat
  rect_height :: rat

text \<open>An element as a box in its chain of offset parents (the chain of a DOM is finite).\<close>

datatype offset_box = OffsetBox (offsetLeft: rat) (offsetTop: rat) (offsetParent: "offset_box option")

record MouseEvent =
  pageX :: rat
  pageY :: rat

text \<open>The calls of the player capability contract, with their arguments as passed
  (\<open>None\<close> is an argument that is \<^verbatim>\<open>undefined\<close> or not given).\<close>

datatype call =
    PlaySegments "jsnum list option" "bool option"
  | ResetSegments
  | Stop
  | Play
  | GoToAndStop "jsnum option" "bool option"
  | Seek string

datatype query_result = QueryRaises | QueryNull | QueryElement element

text \<open>
  What the code reads from the browser at the moment of a call: the document
  (\<^verbatim>\<open>querySelector\<close> raises a \<^verbatim>\<open>SyntaxError\<close> on a string that is not a selector, and
  answers \<^verbatim>\<open>null\<close> or an element otherwise), the player host's \<^verbatim>\<open>getLottie()\<close>, the
  layout, the legacy \<^verbatim>\<open>window.event\<close>, and which calls the animation engine answers
  with an exception of its own.
\<close>

record host =
  querySelector :: "string \<Rightarrow> query_result"
  nodeName :: "element \<Rightarrow> string"
  getLottie :: "element \<Rightarrow> jsval"
  innerHeight :: rat
  getBoundingClientRect :: "element \<Rightarrow> DOMRect"
  offsetBoxOf :: "element \<Rightarrow> offset_box"
  window_event :: "(rat \<times> rat) option"
  body_scrollLeft :: rat
  body_scrollTop :: rat
  engine_raises :: "call \<Rightarrow> bool"

text \<open>The playback state of the animation engine, and the calls it has received
  (oldest first).\<close>

record player_state =
  loop :: bool
  isPaused :: bool
  totalFrames :: jsnum
  calls :: "call list"

text \<open>The outcome of running statements: completed, or an exception thrown; either way
  with the player state as the statements left it.\<close>

datatype outcome = Normal player_state | Throws js_error player_state

fun state_of :: "outcome \<Rightarrow> player_state" where
  "state_of (Normal s) = s"
| "state_of (Throws e s) = s"

fun and_then :: "outcome \<Rightarrow> (player_state \<Rightarrow> outcome) \<Rightarrow> outcome" where
  "and_then (Normal s) f = f s"
| "and_then (Throws e s) f = Throws e s"

text \<open>\<^verbatim>\<open>try { ... } catch (e) { }\<close> with an empty handler.\<close>

fun try_catch :: "outcome \<Rightarrow> outcome" where
  "try_catch (Normal s) = Normal s"
| "try_catch (Throws e s) = Normal s"

definition DEFAULT_PLAYER :: string where
  "DEFAULT_PLAYER = ''lottie-player''"

definition LOTTIE_PLAYER_NODE :: string where
  "LOTTIE_PLAYER_NODE = ''LOTTIE-PLAYER''"

definition ERROR_PREFIX :: string where
  "ERROR_PREFIX = ''[lottieInteractivity]:''"

section \<open>The class \<^verbatim>\<open>LottieInteractivity\<close>\<close>

record options =
  opt_actions :: "action list option"
  opt_container :: jsval
  opt_mode :: "string option"
  opt_player :: jsval
  opt_playerInstance :: jsval

text \<open>The fields of an instance, without \<^verbatim>\<open>options\<close> (the rest of the argument),
  which no method reads.\<close>

record LottieInteractivity =
  player :: jsval
  playerInstance :: jsval
  container :: jsval
  mode :: "string option"
  actions :: "action list option"

definition DEFAULT_OPTIONS :: options where
  "DEFAULT_OPTIONS = \<lparr>opt_actions = None, opt_container = Undefined, opt_mode = None,
     opt_player = Str DEFAULT_PLAYER, opt_playerInstance = Undefined\<rparr>"

fun is_AnimationItem :: "jsval \<Rightarrow> bool" where
  "is_AnimationItem (AnimationItem w) = True"
| "is_AnimationItem _ = False"

text \<open>\<^verbatim>\<open>player.wrapper\<close> on a value that is neither \<^verbatim>\<open>null\<close> nor \<^verbatim>\<open>undefined\<close>.\<close>

fun wrapper :: "jsval \<Rightarrow> jsval" where
  "wrapper (AnimationItem (Some e)) = HTMLElement e"
| "wrapper _ = Undefined"

text \<open>
  Lines 13 to 28: the resolution of the player. The result is the pair of the
  \<^verbatim>\<open>playerInstance\<close> field and the resolved player. \<^verbatim>\<open>typeof null\<close> is \<^verbatim>\<open>'object'\<close>,
  so \<^verbatim>\<open>null\<close> reaches \<^verbatim>\<open>player.constructor\<close>, which raises a \<^verbatim>\<open>TypeError\<close>; so does
  \<^verbatim>\<open>player.constructor.name\<close> on an object without a \<^verbatim>\<open>constructor\<close> property.
\<close>

definition throw_unless_player :: "jsval \<Rightarrow> jsval \<Rightarrow> js_error + jsval \<times> jsval" where
  "throw_unless_player inst p =
     (if \<not> truthy p then Inl (Error (ERROR_PREFIX @ '' Specified player is invalid.''))
      else Inr (inst, p))"

fun resolve_player :: "host \<Rightarrow> jsval \<Rightarrow> js_error + jsval \<times> jsval" where
  "resolve_player h (AnimationItem w) = Inr (Undefined, AnimationItem w)"
| "resolve_player h Null = Inl TypeError"
| "resolve_player h (Object False) = Inl TypeError"
| "resolve_player h (Str sel) =
     (case querySelector h sel of
        QueryRaises \<Rightarrow> Inl SyntaxError
      | QueryNull \<Rightarrow> throw_unless_player Null (Str sel)
      | QueryElement elem \<Rightarrow>
          if nodeName h elem = LOTTIE_PLAYER_NODE
          then throw_unless_player (HTMLElement elem) (getLottie h elem)
          else throw_unless_player (HTMLElement elem) (Str sel))"
| "resolve_player h (HTMLElement e) =
     (if nodeName h e = LOTTIE_PLAYER_NODE
      then throw_unless_player Undefined (getLottie h e)
      else throw_unless_player Undefined (HTMLElement e))"
| "resolve_player h p = throw_unless_player Undefined p"

text \<open>Lines 31 to 38: the resolution of the container.\<close>

definition resolve_container :: "host \<Rightarrow> jsval \<Rightarrow> jsval \<Rightarrow> js_error + jsval" where
  "resolve_container h p c =
     (case (case c of
              Str sel \<Rightarrow>
                (case querySelector h sel of
                   QueryRaises \<Rightarrow> Inl SyntaxError
                 | QueryNull \<Rightarrow> Inr Null
                 | QueryElement e \<Rightarrow> Inr (HTMLElement e))
            | _ \<Rightarrow> Inr c) of
        Inl e \<Rightarrow> Inl e
      | Inr c' \<Rightarrow> Inr (if \<not> truthy c' then wrapper p else c'))"

text \<open>The constructor; \<open>None\<close> is a call without argument, which takes
  \<^verbatim>\<open>DEFAULT_OPTIONS\<close>.\<close>

definition constructor :: "host \<Rightarrow> options option \<Rightarrow> js_error + LottieInteractivity" where
  "constructor h arg =
     (let opts = (case arg of None \<Rightarrow> DEFAULT_OPTIONS | Some given \<Rightarrow> given) in
      case resolve_player h (opt_player opts) of
        Inl e \<Rightarrow> Inl e
      | Inr (inst, p) \<Rightarrow>
          (case resolve_container h p (opt_container opts) of
             Inl e \<Rightarrow> Inl e
           | Inr c \<Rightarrow>
               Inr \<lparr>player = p, playerInstance = inst, container = c,
                    mode = opt_mode opts, actions = opt_actions opts\<rparr>))"


subsection \<open>\<^verbatim>\<open>boundingBoxUtils\<close>\<close>

record bounding_box =
  bb_height :: rat
  bb_bottom :: rat
  bb_currentPercent :: jsnum
  bb_action :: action

text \<open>Line 61, the predicate given to \<^verbatim>\<open>Array.prototype.find\<close>.\<close>

definition satisfies :: "jsnum \<Rightarrow> action \<Rightarrow> bool" where
  "satisfies currentPercent a =
     (js_ge currentPercent (action_start a) \<and> js_le currentPercent (action_end a))"

text \<open>
  The result is \<open>Inr None\<close> where the method returns \<^verbatim>\<open>undefined\<close>. A container without
  \<^verbatim>\<open>getBoundingClientRect\<close> and an \<^verbatim>\<open>actions\<close> field without \<^verbatim>\<open>find\<close> raise a
  \<^verbatim>\<open>TypeError\<close>.
\<close>

definition boundingBoxUtils :: "LottieInteractivity \<Rightarrow> host \<Rightarrow> js_error + bounding_box option" where
  "boundingBoxUtils this h =
     (case container this of
        HTMLElement c \<Rightarrow>
          (let r = getBoundingClientRect h c;
               current = js_sub (Number (innerHeight h)) (Number (rect_top r));
               maxv = js_add (Number (innerHeight h)) (Number (rect_height r));
               currentPercent = js_div current maxv
           in if js_lt currentPercent (Number 0) \<or> js_gt currentPercent (Number 1) then Inr None
              else
                (case actions this of
                   None \<Rightarrow> Inl TypeError
                 | Some acts \<Rightarrow>
                     (case find (satisfies currentPercent) acts of
                        None \<Rightarrow> Inr None
                      | Some a \<Rightarrow>
                          Inr (Some \<lparr>bb_height = rect_height r, bb_bottom = rect_bottom r,
                                     bb_currentPercent = currentPercent, bb_action = a\<rparr>))))
      | _ \<Rightarrow> Inl TypeError)"

subsection \<open>Access to the player\<close>

text \<open>
  Only an \<^verbatim>\<open>AnimationItem\<close> has the methods and flags of the engine. A method call on
  any other value of \<^verbatim>\<open>this.player\<close> raises a \<^verbatim>\<open>TypeError\<close>. A call the engine
  receives is recorded, also when the engine answers it with an exception.
\<close>

definition record_call :: "host \<Rightarrow> call \<Rightarrow> player_state \<Rightarrow> outcome" where
  "record_call h c s =
     (let s' = s\<lparr>calls := calls s @ [c]\<rparr>
      in if engine_raises h c then Throws EngineError s' else Normal s')"

definition player_call :: "LottieInteractivity \<Rightarrow> host \<Rightarrow> call \<Rightarrow> player_state \<Rightarrow> outcome" where
  "player_call this h c s =
     (if is_AnimationItem (player this) then record_call h c s else Throws TypeError s)"

text \<open>\<^verbatim>\<open>this.player.loop = true\<close>, in the strict mode of a class body: the assignment
  raises on a primitive and adds a property, which is no engine flag, to any other
  object.\<close>

fun set_loop_true :: "jsval \<Rightarrow> player_state \<Rightarrow> outcome" where
  "set_loop_true (AnimationItem w) s = Normal (s\<lparr>loop := True\<rparr>)"
| "set_loop_true (HTMLElement e) s = Normal s"
| "set_loop_true (Object c) s = Normal s"
| "set_loop_true p s = Throws TypeError s"

text \<open>\<^verbatim>\<open>this.player.isPaused === true\<close>.\<close>

definition player_isPaused :: "LottieInteractivity \<Rightarrow> player_state \<Rightarrow> bool" where
  "player_isPaused this s = (is_AnimationItem (player this) \<and> isPaused s)"

text \<open>\<^verbatim>\<open>this.player.totalFrames\<close>, \<^verbatim>\<open>undefined\<close> (in arithmetic \<^verbatim>\<open>NaN\<close>) on a value
  that is no engine.\<close>

definition player_totalFrames :: "LottieInteractivity \<Rightarrow> player_state \<Rightarrow> jsnum" where
  "player_totalFrames this s = (if is_AnimationItem (player this) then totalFrames s else NaN)"

text \<open>\<^verbatim>\<open>this.playerInstance.seek(percentageString)\<close>: the player host element
  \<^verbatim>\<open>lottie-player\<close> is what offers \<^verbatim>\<open>seek\<close>.\<close>

definition playerInstance_seek :: "LottieInteractivity \<Rightarrow> host \<Rightarrow> string \<Rightarrow> player_state \<Rightarrow> outcome" where
  "playerInstance_seek this h percentageString s =
     (case playerInstance this of
        HTMLElement e \<Rightarrow>
          if nodeName h e = LOTTIE_PLAYER_NODE then record_call h (Seek percentageString) s
          else Throws TypeError s
      | _ \<Rightarrow> Throws TypeError s)"

text \<open>\<^verbatim>\<open>action.frames[0]\<close>: a \<^verbatim>\<open>TypeError\<close> without \<^verbatim>\<open>frames\<close>, \<^verbatim>\<open>undefined\<close> on an
  empty array.\<close>

fun frames_0 :: "action \<Rightarrow> js_error + jsnum option" where
  "frames_0 a =
     (case action_frames a of
        None \<Rightarrow> Inl TypeError
      | Some [] \<Rightarrow> Inr None
      | Some (f # fs) \<Rightarrow> Inr (Some f))"

subsection \<open>The handlers\<close>

definition hoverStartHandler_body :: "LottieInteractivity \<Rightarrow> host \<Rightarrow> player_state \<Rightarrow> outcome" where
  "hoverStartHandler_body this h s =
     (case boundingBoxUtils this h of
        Inl e \<Rightarrow> Throws e s
      | Inr None \<Rightarrow> Throws TypeError s
      | Inr (Some bb) \<Rightarrow>
          (let action = bb_action bb in
           if action_type action = ''loop'' then
             (if player_isPaused this s
              then player_call this h (PlaySegments (action_frames action) (Some True)) s
              else Normal s)
           else if action_type action = ''play'' then
             and_then
               (if player_isPaused this s then player_call this h ResetSegments s else Normal s)
               (player_call this h (PlaySegments (action_frames action) None))
           else if action_type action = ''stop'' then
             (case frames_0 action of
                Inl e \<Rightarrow> Throws e s
              | Inr f \<Rightarrow>
                  and_then (player_call this h (GoToAndStop f None) s)
                    (player_call this h Stop))
           else Normal s))"

definition hoverStartHandler :: "LottieInteractivity \<Rightarrow> host \<Rightarrow> player_state \<Rightarrow> outcome" where
  "hoverStartHandler this h s = try_catch (hoverStartHandler_body this h s)"

definition hoverEndHandler_body :: "LottieInteractivity \<Rightarrow> host \<Rightarrow> player_state \<Rightarrow> outcome" where
  "hoverEndHandler_body this h s =
     (case boundingBoxUtils this h of
        Inl e \<Rightarrow> Throws e s
      | Inr None \<Rightarrow> Throws TypeError s
      | Inr (Some bb) \<Rightarrow>
          (let action = bb_action bb in
           if action_type action = ''loop'' then player_call this h Stop s
           else if action_type action = ''play'' then player_call this h Stop s
           else if action_type action = ''stop'' then
             player_call this h (PlaySegments (action_frames action) (Some True)) s
           else Normal s))"

definition hoverEndHandler :: "LottieInteractivity \<Rightarrow> host \<Rightarrow> player_state \<Rightarrow> outcome" where
  "hoverEndHandler this h s = try_catch (hoverEndHandler_body this h s)"

text \<open>Line 150, the frame of the \<^verbatim>\<open>seek\<close> action.\<close>

definition seek_frame :: "jsnum \<Rightarrow> action \<Rightarrow> jsnum \<Rightarrow> jsnum" where
  "seek_frame currentPercent action frame_count =
     js_ceil
       (js_mul
          (js_div (js_sub currentPercent (action_start action))
                  (js_sub (action_end action) (action_start action)))
          frame_count)"

definition scrollHandler_body :: "LottieInteractivity \<Rightarrow> host \<Rightarrow> player_state \<Rightarrow> outcome" where
  "scrollHandler_body this h s =
     (case boundingBoxUtils this h of
        Inl e \<Rightarrow> Throws e s
      | Inr None \<Rightarrow> Throws TypeError s
      | Inr (Some bb) \<Rightarrow>
          (let currentPercent = bb_currentPercent bb; action = bb_action bb in
           and_then (set_loop_true (player this) s)
             (\<lambda>s.
                if action_type action = ''seek'' then
                  and_then (player_call this h (PlaySegments (action_frames action) (Some True)) s)
                    (\<lambda>s. player_call this h
                            (GoToAndStop
                               (Some (seek_frame currentPercent action (player_totalFrames this s)))
                               (Some True)) s)
                else if action_type action = ''loop'' then
                  (if player_isPaused this s
                   then player_call this h (PlaySegments (action_frames action) (Some True)) s
                   else Normal s)
                else if action_type action = ''play'' then
                  and_then
                    (if player_isPaused this s then player_call this h ResetSegments s
                     else Normal s)
                    (player_call this h Play)
                else if action_type action = ''stop'' then
                  (case frames_0 action of
                     Inl e \<Rightarrow> Throws e s
                   | Inr f \<Rightarrow>
                       and_then (player_call this h (GoToAndStop f None) s)
                         (player_call this h Stop))
                else Normal s)))"

definition scrollHandler :: "LottieInteractivity \<Rightarrow> host \<Rightarrow> player_state \<Rightarrow> outcome" where
  "scrollHandler this h s = try_catch (scrollHandler_body this h s)"

text \<open>Lines 183 to 187, the walk along the offset parents.\<close>

fun offset_walk :: "offset_box \<Rightarrow> jsnum \<Rightarrow> jsnum \<Rightarrow> jsnum \<times> jsnum" where
  "offset_walk (OffsetBox l t None) obj_left obj_top = (obj_left, obj_top)"
| "offset_walk (OffsetBox l t (Some parent)) obj_left obj_top =
     offset_walk parent (js_add obj_left (Number l)) (js_add obj_top (Number t))"

text \<open>Lines 188 to 196: the position from the event, or from \<^verbatim>\<open>window.event\<close> when the
  handler got no event; without either, reading \<^verbatim>\<open>window.event.x\<close> raises.\<close>

definition pointer_page_position :: "host \<Rightarrow> MouseEvent option \<Rightarrow> js_error + jsnum \<times> jsnum" where
  "pointer_page_position h mouseEvent =
     (case mouseEvent of
        Some ev \<Rightarrow> Inr (Number (pageX ev), Number (pageY ev))
      | None \<Rightarrow>
          (case window_event h of
             None \<Rightarrow> Inl TypeError
           | Some (x, y) \<Rightarrow>
               Inr (js_sub (js_add (Number x) (Number (body_scrollLeft h))) (Number 2),
                    js_sub (js_add (Number y) (Number (body_scrollTop h))) (Number 2))))"

text \<open>Lines 204 and 205, and 208 and 209: the percentage and its string.\<close>

definition percentage_string :: "jsnum \<Rightarrow> rat \<Rightarrow> string" where
  "percentage_string pos extent =
     js_toString (js_ceil (js_mul (js_div pos (Number extent)) (Number 100))) @ ''%''"

definition mousePositionHandler_body ::
    "LottieInteractivity \<Rightarrow> host \<Rightarrow> MouseEvent option \<Rightarrow> player_state \<Rightarrow> outcome" where
  "mousePositionHandler_body this h mouseEvent s =
     (case boundingBoxUtils this h of
        Inl e \<Rightarrow> Throws e s
      | Inr None \<Rightarrow> Throws TypeError s
      | Inr (Some bb) \<Rightarrow>
          (case container this of
             HTMLElement obj \<Rightarrow>
               (let (obj_left, obj_top) = offset_walk (offsetBoxOf h obj) (Number 0) (Number 0) in
                case pointer_page_position h mouseEvent of
                  Inl e \<Rightarrow> Throws e s
                | Inr (x, y) \<Rightarrow>
                    (let xpos = js_sub x obj_left; ypos = js_sub y obj_top;
                         action = bb_action bb in
                     if action_type action = ''seek-yaxis'' then
                       playerInstance_seek this h (percentage_string ypos (bb_height bb)) s
                     else if action_type action = ''seek-xaxis'' then
                       playerInstance_seek this h (percentage_string xpos (bb_bottom bb)) s
                     else Normal s))
           | _ \<Rightarrow> Throws TypeError s))"

definition mousePositionHandler ::
    "LottieInteractivity \<Rightarrow> host \<Rightarrow> MouseEvent option \<Rightarrow> player_state \<Rightarrow> outcome" where
  "mousePositionHandler this h mouseEvent s =
     try_catch (mousePositionHandler_body this h mouseEvent s)"


subsection \<open>\<^verbatim>\<open>start\<close>, \<^verbatim>\<open>stop\<close> and the dispatch of events\<close>

text \<open>
  The four handlers are fields of the instance, so that \<^verbatim>\<open>start\<close> and \<^verbatim>\<open>stop\<close> name
  the same function objects. The browser keeps, for this instance, the listeners added
  with \<^verbatim>\<open>addEventListener\<close> (target, event type, handler; adding a listener a second time
  changes nothing) and the \<^verbatim>\<open>onmousemove\<close> property of each element.
\<close>

datatype handler = ScrollHandler | HoverStartHandler | HoverEndHandler | MousePositionHandler

datatype event_target = Window | Node element

record listeners =
  event_listeners :: "(event_target \<times> string \<times> handler) list"
  onmousemove :: "element \<Rightarrow> handler option"

definition addEventListener :: "event_target \<Rightarrow> string \<Rightarrow> handler \<Rightarrow> listeners \<Rightarrow> listeners" where
  "addEventListener tgt ty fn ls =
     (if (tgt, ty, fn) \<in> set (event_listeners ls) then ls
      else ls\<lparr>event_listeners := event_listeners ls @ [(tgt, ty, fn)]\<rparr>)"

definition removeEventListener :: "event_target \<Rightarrow> string \<Rightarrow> handler \<Rightarrow> listeners \<Rightarrow> listeners" where
  "removeEventListener tgt ty fn ls =
     ls\<lparr>event_listeners := removeAll (tgt, ty, fn) (event_listeners ls)\<rparr>"

text \<open>\<^verbatim>\<open>this.container.addEventListener\<close> and \<^verbatim>\<open>removeEventListener\<close> exist on an
  element only.\<close>

definition on_container ::
    "LottieInteractivity \<Rightarrow> (event_target \<Rightarrow> listeners \<Rightarrow> listeners) \<Rightarrow> listeners \<Rightarrow> js_error + listeners" where
  "on_container this f ls =
     (case container this of HTMLElement c \<Rightarrow> Inr (f (Node c) ls) | _ \<Rightarrow> Inl TypeError)"

text \<open>\<^verbatim>\<open>this.container.onmousemove = ...\<close>: the browser's slot on an element, a plain
  property on another object, a \<^verbatim>\<open>TypeError\<close> on \<^verbatim>\<open>null\<close>, \<^verbatim>\<open>undefined\<close> and
  primitives.\<close>

fun set_onmousemove :: "jsval \<Rightarrow> handler \<Rightarrow> listeners \<Rightarrow> js_error + listeners" where
  "set_onmousemove (HTMLElement c) fn ls = Inr (ls\<lparr>onmousemove := (onmousemove ls)(c \<mapsto> fn)\<rparr>)"
| "set_onmousemove (AnimationItem w) fn ls = Inr ls"
| "set_onmousemove (Object c) fn ls = Inr ls"
| "set_onmousemove c fn ls = Inl TypeError"

fun next_statement :: "js_error + listeners \<Rightarrow> (listeners \<Rightarrow> js_error + listeners) \<Rightarrow> js_error + listeners" where
  "next_statement (Inl e) f = Inl e"
| "next_statement (Inr ls) f = f ls"

definition start :: "LottieInteractivity \<Rightarrow> listeners \<Rightarrow> js_error + listeners" where
  "start this ls =
     next_statement
       (if mode this = Some ''scroll''
        then Inr (addEventListener Window ''scroll'' ScrollHandler ls) else Inr ls)
       (\<lambda>ls. next_statement
          (if mode this = Some ''hover''
           then next_statement
                  (on_container this (\<lambda>c. addEventListener c ''mouseenter'' HoverStartHandler) ls)
                  (on_container this (\<lambda>c. addEventListener c ''mouseleave'' HoverEndHandler))
           else Inr ls)
          (\<lambda>ls. if mode this = Some ''mouseposition''
                then set_onmousemove (container this) MousePositionHandler ls else Inr ls))"

definition stop :: "LottieInteractivity \<Rightarrow> listeners \<Rightarrow> js_error + listeners" where
  "stop this ls =
     next_statement
       (if mode this = Some ''scroll''
        then Inr (removeEventListener Window ''scroll'' ScrollHandler ls) else Inr ls)
       (\<lambda>ls. if mode this = Some ''hover''
             then next_statement
                    (on_container this (\<lambda>c. removeEventListener c ''mouseenter'' HoverStartHandler) ls)
                    (on_container this (\<lambda>c. removeEventListener c ''mouseleave'' HoverEndHandler))
             else Inr ls)"

text \<open>Lines 218 to 223, the factory.\<close>

definition create :: "host \<Rightarrow> options option \<Rightarrow> listeners \<Rightarrow> js_error + LottieInteractivity \<times> listeners" where
  "create h opts ls =
     (case constructor h opts of
        Inl e \<Rightarrow> Inl e
      | Inr inst \<Rightarrow> (case start inst ls of Inl e \<Rightarrow> Inl e | Inr ls' \<Rightarrow> Inr (inst, ls')))"

text \<open>The handlers that an event of type \<open>ty\<close> at target \<open>tgt\<close> reaches, in the order of
  their invocation.\<close>

definition handlers_of :: "listeners \<Rightarrow> event_target \<Rightarrow> string \<Rightarrow> handler list" where
  "handlers_of ls tgt ty =
     map (\<lambda>(t, y, fn). fn) (filter (\<lambda>(t, y, fn). t = tgt \<and> y = ty) (event_listeners ls))
     @ (case tgt of
          Node e \<Rightarrow>
            (if ty = ''mousemove''
             then (case onmousemove ls e of Some fn \<Rightarrow> [fn] | None \<Rightarrow> []) else [])
        | Window \<Rightarrow> [])"

fun invoke :: "LottieInteractivity \<Rightarrow> host \<Rightarrow> MouseEvent \<Rightarrow> handler \<Rightarrow> player_state \<Rightarrow> outcome" where
  "invoke this h ev ScrollHandler s = scrollHandler this h s"
| "invoke this h ev HoverStartHandler s = hoverStartHandler this h s"
| "invoke this h ev HoverEndHandler s = hoverEndHandler this h s"
| "invoke this h ev MousePositionHandler s = mousePositionHandler this h (Some ev) s"

text \<open>The browser runs every handler the event reaches, one after the other; the result
  is the player state after the last one.\<close>

definition dispatchEvent ::
    "LottieInteractivity \<Rightarrow> host \<Rightarrow> listeners \<Rightarrow> event_target \<Rightarrow> string \<Rightarrow> MouseEvent
     \<Rightarrow> player_state \<Rightarrow> player_state" where
  "dispatchEvent this h ls tgt ty ev s =
     fold (\<lambda>fn s. state_of (invoke this h ev fn s)) (handlers_of ls tgt ty) s"

definition no_listeners :: listeners where
  "no_listeners = \<lparr>event_listeners = [], onmousemove = (\<lambda>e. None)\<rparr>"


text \<open>\<^verbatim>\<open>start()\<close> followed by \<^verbatim>\<open>stop()\<close>.\<close>

definition start_then_stop :: "LottieInteractivity \<Rightarrow> listeners \<Rightarrow> js_error + listeners" where
  "start_then_stop this ls = next_statement (start this ls) (stop this)"

section \<open>The words of the specification on construction\<close>

text \<open>
  Following the specification's words, a usable player reference is resolved from a
  direct \<^verbatim>\<open>AnimationItem\<close> instance, from a selector whose lookup finds a player host
  with an embedded player, or from a DOM element that is a player host with an embedded
  player.
\<close>

fun usable_player_reference :: "host \<Rightarrow> jsval \<Rightarrow> bool" where
  "usable_player_reference h (AnimationItem w) = True"
| "usable_player_reference h (Str sel) =
     (case querySelector h sel of
        QueryElement e \<Rightarrow> nodeName h e = LOTTIE_PLAYER_NODE \<and> is_AnimationItem (getLottie h e)
      | _ \<Rightarrow> False)"
| "usable_player_reference h (HTMLElement e) =
     (nodeName h e = LOTTIE_PLAYER_NODE \<and> is_AnimationItem (getLottie h e))"
| "usable_player_reference h p = False"

text \<open>
  The options without any player: \<^verbatim>\<open>player\<close> is absent, \<^verbatim>\<open>null\<close> or another falsy
  value that is no string, or it is a player host, given as an element or found by the
  selector, whose \<^verbatim>\<open>getLottie()\<close> yields a falsy value, or it is a string on which the
  lookup raises.
\<close>

fun player_missing :: "host \<Rightarrow> jsval \<Rightarrow> bool" where
  "player_missing h Undefined = True"
| "player_missing h Null = True"
| "player_missing h (Primitive b) = (\<not> b)"
| "player_missing h (Str sel) =
     (case querySelector h sel of
        QueryRaises \<Rightarrow> True
      | QueryNull \<Rightarrow> False
      | QueryElement e \<Rightarrow> nodeName h e = LOTTIE_PLAYER_NODE \<and> \<not> truthy (getLottie h e))"
| "player_missing h (HTMLElement e) =
     (nodeName h e = LOTTIE_PLAYER_NODE \<and> \<not> truthy (getLottie h e))"
| "player_missing h p = False"

text \<open>The lookup of a selector given as an option raises.\<close>

definition selector_raises :: "host \<Rightarrow> jsval \<Rightarrow> bool" where
  "selector_raises h v = (case v of Str sel \<Rightarrow> querySelector h sel = QueryRaises | _ \<Rightarrow> False)"

section \<open>Example pages and instances\<close>

text \<open>
  A page with a viewport of height \<open>ih\<close>, in which \<^verbatim>\<open>#player\<close> selects a
  \<^verbatim>\<open>lottie-player\<close> host (element 1) whose engine has the wrapper element 3,
  \<^verbatim>\<open>#box\<close> selects a \<^verbatim>\<open>div\<close> (element 2), \<^verbatim>\<open>##\<close> is no selector, and nothing else is
  found. Every element has its top edge at \<open>y\<close> and the height \<open>ht\<close>, and lies at the
  offset (10, 30) in the document. The engine answers every call normally.
\<close>

definition example_page :: "rat \<Rightarrow> rat \<Rightarrow> rat \<Rightarrow> host" where
  "example_page ih y ht =
     \<lparr>querySelector =
        (\<lambda>sel. if sel = ''#player'' then QueryElement 1
               else if sel = ''#box'' then QueryElement 2
               else if sel = ''##'' then QueryRaises
               else QueryNull),
      nodeName = (\<lambda>e. if e = 1 then LOTTIE_PLAYER_NODE else ''DIV''),
      getLottie = (\<lambda>e. if e = 1 then AnimationItem (Some 3) else Undefined),
      innerHeight = ih,
      getBoundingClientRect =
        (\<lambda>e. \<lparr>rect_top = y, rect_bottom = y + ht, rect_height = ht\<rparr>),
      offsetBoxOf = (\<lambda>e. OffsetBox 10 30 (Some (OffsetBox 0 0 None))),
      window_event = None,
      body_scrollLeft = 0,
      body_scrollTop = 0,
      engine_raises = (\<lambda>c. False)\<rparr>"

text \<open>The instance that the selector \<^verbatim>\<open>#player\<close> gives on this page, and the instance
  that the engine itself, passed as \<^verbatim>\<open>player\<close>, gives.\<close>

definition selector_instance :: "string \<Rightarrow> action list \<Rightarrow> LottieInteractivity" where
  "selector_instance m acts =
     \<lparr>player = AnimationItem (Some 3), playerInstance = HTMLElement 1,
      container = HTMLElement 3, mode = Some m, actions = Some acts\<rparr>"

definition direct_instance :: "string \<Rightarrow> action list \<Rightarrow> LottieInteractivity" where
  "direct_instance m acts =
     \<lparr>player = AnimationItem (Some 3), playerInstance = Undefined,
      container = HTMLElement 3, mode = Some m, actions = Some acts\<rparr>"

definition example_action :: "rat \<Rightarrow> rat \<Rightarrow> string \<Rightarrow> jsnum list option \<Rightarrow> action" where
  "example_action s e ty fs =
     \<lparr>action_start = js_literal s, action_end = js_literal e, action_type = ty,
      action_frames = fs\<rparr>"

definition paused_player :: player_state where
  "paused_player = \<lparr>loop = False, isPaused = True, totalFrames = Number 200, calls = []\<rparr>"

definition example_options :: "jsval \<Rightarrow> jsval \<Rightarrow> options" where
  "example_options p c =
     \<lparr>opt_actions = Some [], opt_container = c, opt_mode = Some ''scroll'',
      opt_player = p, opt_playerInstance = Undefined\<rparr>"

section \<open>Facts shared by the proofs\<close>

lemma js_div_by_zero:
  "js_div x (Number 0) = NaN \<or> js_div x (Number 0) = PosInfinity
   \<or> js_div x (Number 0) = NegInfinity"
  by (cases x) (simp_all add: signed_infinity_def)

lemma in_unit_interval:
  assumes "\<not> js_lt x (Number 0)" and "\<not> js_gt x (Number 1)" and "x \<noteq> NaN"
  shows "\<exists>p. x = Number p \<and> 0 \<le> p \<and> p \<le> 1"
  using assms by (cases x) (simp_all add: js_gt_def)

lemma try_catch_state: "try_catch out = Normal (state_of out)"
  by (cases out) simp_all

lemma js_le_NaN: "js_le x NaN = False"
  by (cases x) simp_all

lemma satisfies_NaN: "satisfies NaN a = False"
  by (simp add: satisfies_def js_ge_def js_le_NaN)

lemma find_satisfies_NaN: "find (satisfies NaN) acts = None"
  by (simp add: find_None_iff satisfies_NaN)

lemma record_call_loop: "loop (state_of (record_call h c s)) = loop s"
  by (simp add: record_call_def Let_def)

lemma player_call_loop: "loop (state_of (player_call this h c s)) = loop s"
  by (simp add: player_call_def record_call_loop)

lemma and_then_loop:
  assumes "\<And>s'. loop (state_of (f s')) = loop s'"
  shows "loop (state_of (and_then out f)) = loop (state_of out)"
  by (cases out) (simp_all add: assms)

lemma AnimationItem_truthy: "is_AnimationItem v \<Longrightarrow> truthy v"
  by (cases v) simp_all

text \<open>The two example instances are what the constructor returns on the example
  page.\<close>

lemma selector_instance_constructed:
  "constructor (example_page ih y ht)
     (Some \<lparr>opt_actions = Some acts, opt_container = Undefined, opt_mode = Some m,
            opt_player = Str ''#player'', opt_playerInstance = Undefined\<rparr>)
   = Inr (selector_instance m acts)"
  by (simp add: constructor_def resolve_container_def throw_unless_player_def
        example_page_def selector_instance_def)

lemma direct_instance_constructed:
  "constructor (example_page ih y ht)
     (Some \<lparr>opt_actions = Some acts, opt_container = Undefined, opt_mode = Some m,
            opt_player = AnimationItem (Some 3), opt_playerInstance = Undefined\<rparr>)
   = Inr (direct_instance m acts)"
  by (simp add: constructor_def resolve_container_def direct_instance_def)

text \<open>An example without a matching action: the percentage is 9/10, the only range ends
  at 3/10.\<close>

lemma no_match_example:
  "boundingBoxUtils (selector_instance m [example_action 0 (3/10) ty fs])
     (example_page 800 (-100) 200) = Inr None"
  by code_simp

section \<open>Listener lifecycle\<close>

text \<open>
  \<^verbatim>\<open>stop\<close> removes the scroll listener and the two hover listeners: whatever was
  registered before, the handler of this instance is no longer among the handlers that
  the event reaches.
\<close>

lemma stop_detaches_scroll:
  assumes "mode this = Some ''scroll''" and "stop this ls = Inr ls'"
  shows "ScrollHandler \<notin> set (handlers_of ls' Window ''scroll'')"
proof -
  from assms have "ls' = removeEventListener Window ''scroll'' ScrollHandler ls"
    by (simp add: stop_def)
  then show ?thesis
    by (auto simp: handlers_of_def removeEventListener_def)
qed

lemma stop_detaches_hover:
  assumes "mode this = Some ''hover''" and "container this = HTMLElement c"
    and "stop this ls = Inr ls'"
  shows "HoverStartHandler \<notin> set (handlers_of ls' (Node c) ''mouseenter'')
         \<and> HoverEndHandler \<notin> set (handlers_of ls' (Node c) ''mouseleave'')"
proof -
  from assms have "ls' = removeEventListener (Node c) ''mouseleave'' HoverEndHandler
                          (removeEventListener (Node c) ''mouseenter'' HoverStartHandler ls)"
    by (simp add: stop_def on_container_def)
  then show ?thesis
    by (auto simp: handlers_of_def removeEventListener_def)
qed

text \<open>From a page without listeners, \<^verbatim>\<open>start\<close> and then \<^verbatim>\<open>stop\<close> lead back to a page
  without listeners, in the modes \<^verbatim>\<open>scroll\<close> and \<^verbatim>\<open>hover\<close>.\<close>

lemma no_listeners_no_handlers: "handlers_of no_listeners tgt ty = []"
  by (simp add: handlers_of_def no_listeners_def split: event_target.splits)

lemma start_stop_scroll:
  assumes "mode this = Some ''scroll''"
  shows "start_then_stop this no_listeners = Inr no_listeners"
  using assms
  by (simp add: start_then_stop_def start_def stop_def addEventListener_def
        removeEventListener_def no_listeners_def)

lemma start_stop_hover:
  assumes "mode this = Some ''hover''" and "container this = HTMLElement c"
  shows "start_then_stop this no_listeners = Inr no_listeners"
  using assms
  by (simp add: start_then_stop_def start_def stop_def addEventListener_def
        removeEventListener_def no_listeners_def on_container_def)

text \<open>In the mode \<^verbatim>\<open>mouseposition\<close>, \<^verbatim>\<open>stop\<close> has no statement: it returns the
  listeners as they are, and the handler that \<^verbatim>\<open>start\<close> stored in \<^verbatim>\<open>onmousemove\<close> is
  still reached by a pointer move.\<close>

lemma stop_ignores_mouseposition:
  "mode this = Some ''mouseposition'' \<Longrightarrow> stop this ls = Inr ls"
  by (simp add: stop_def)

lemma start_stop_mouseposition:
  assumes "mode this = Some ''mouseposition''" and "container this = HTMLElement c"
  shows "\<exists>ls. start_then_stop this no_listeners = Inr ls
           \<and> handlers_of ls (Node c) ''mousemove'' = [MousePositionHandler]"
  using assms
  by (simp add: start_then_stop_def start_def stop_def no_listeners_def handlers_of_def)

text \<open>
  Claim C1 says that after \<^verbatim>\<open>stop()\<close> no event of the configured mode reaches the
  handlers, in each of the three modes. The code is evaluated here in the mode
  \<^verbatim>\<open>mouseposition\<close>: an instance on the example page (container height 200) is started
  and stopped; a pointer move over the container, 50 pixels below its top, still reaches
  \<^verbatim>\<open>mousePositionHandler\<close>, and the player host still receives \<^verbatim>\<open>seek("25%")\<close>.
\<close>

theorem C1_stop_keeps_onmousemove:
  "map_sum id (\<lambda>ls. handlers_of ls (Node 3) ''mousemove'')
     (start_then_stop (selector_instance ''mouseposition'' [example_action 0 1 ''seek-yaxis'' None])
        no_listeners)
   = Inr [MousePositionHandler]
   \<and> map_sum id
       (\<lambda>ls. calls (dispatchEvent
                 (selector_instance ''mouseposition'' [example_action 0 1 ''seek-yaxis'' None])
                 (example_page 800 100 200) ls (Node 3) ''mousemove''
                 \<lparr>pageX = 160, pageY = 80\<rparr> paused_player))
       (start_then_stop (selector_instance ''mouseposition'' [example_action 0 1 ''seek-yaxis'' None])
          no_listeners)
   = Inr [Seek ''25%'']"
  by code_simp

section \<open>The scroll handler and the loop flag\<close>

text \<open>
  Claim C2, as the code has it. In a scroll tick in which \<^verbatim>\<open>boundingBoxUtils\<close> resolves
  an action, the loop flag of the engine is true afterwards, whatever the type of the
  action (also a type without any scroll transition) and whatever the engine answers to
  the calls that follow. In a scroll tick without a resolved action (no sample, or no
  action that matches) the handler leaves the player as it was: the destructuring of
  \<^verbatim>\<open>undefined\<close> raises before the assignment to \<^verbatim>\<open>loop\<close>.
\<close>

theorem C2_loop_set_when_action_resolved:
  "(boundingBoxUtils this h = Inr (Some bb) \<and> is_AnimationItem (player this)
      \<longrightarrow> loop (state_of (scrollHandler this h s)))
   \<and> ((\<forall>bb. boundingBoxUtils this h \<noteq> Inr (Some bb))
      \<longrightarrow> scrollHandler this h s = Normal s)"
proof (intro conjI impI)
  assume a: "boundingBoxUtils this h = Inr (Some bb) \<and> is_AnimationItem (player this)"
  then obtain w where w: "player this = AnimationItem w"
    by (cases "player this") simp_all
  have "loop (state_of (scrollHandler_body this h s))"
    using a w
    by (simp add: scrollHandler_body_def Let_def player_call_loop and_then_loop
             split: sum.splits option.splits)
  then show "loop (state_of (scrollHandler this h s))"
    by (simp add: scrollHandler_def try_catch_state)
next
  assume "\<forall>bb. boundingBoxUtils this h \<noteq> Inr (Some bb)"
  then show "scrollHandler this h s = Normal s"
    by (simp add: scrollHandler_def scrollHandler_body_def split: sum.splits option.splits)
qed

text \<open>A resolved action of type \<^verbatim>\<open>seek-xaxis\<close>, which the scroll handler has no branch
  for, and a tick without a match.\<close>

theorem C2_loop_set_when_action_resolved_witness:
  "loop (state_of (scrollHandler (selector_instance ''scroll'' [example_action 0 1 ''seek-xaxis'' None])
     (example_page 800 100 400) paused_player))
   \<and> scrollHandler (selector_instance ''scroll'' [example_action 0 (3/10) ''loop'' None])
     (example_page 800 (-100) 200) paused_player = Normal paused_player"
proof -
  have 1: "boundingBoxUtils (selector_instance ''scroll'' [example_action 0 1 ''seek-xaxis'' None])
     (example_page 800 100 400)
     = Inr (Some \<lparr>bb_height = 400, bb_bottom = 500, bb_currentPercent = js_div (Number 700) (Number 1200),
                 bb_action = example_action 0 1 ''seek-xaxis'' None\<rparr>)"
    by code_simp
  have 2: "is_AnimationItem (player (selector_instance ''scroll'' [example_action 0 1 ''seek-xaxis'' None]))"
    by (simp add: selector_instance_def)
  from C2_loop_set_when_action_resolved
         [of "selector_instance ''scroll'' [example_action 0 1 ''seek-xaxis'' None]"
             "example_page 800 100 400" _ paused_player] 1 2
  have a: "loop (state_of (scrollHandler (selector_instance ''scroll'' [example_action 0 1 ''seek-xaxis'' None])
     (example_page 800 100 400) paused_player))" by blast
  have none: "\<forall>bb. boundingBoxUtils (selector_instance ''scroll'' [example_action 0 (3/10) ''loop'' None])
     (example_page 800 (-100) 200) \<noteq> Inr (Some bb)"
    by (simp add: no_match_example)
  with C2_loop_set_when_action_resolved
         [of "selector_instance ''scroll'' [example_action 0 (3/10) ''loop'' None]"
             "example_page 800 (-100) 200" _ paused_player]
  have b: "scrollHandler (selector_instance ''scroll'' [example_action 0 (3/10) ''loop'' None])
     (example_page 800 (-100) 200) paused_player = Normal paused_player"
    by blast
  from a b show ?thesis by simp
qed

text \<open>With the percentage at 9/10 and the only action ending at 3/10, a scroll tick on a
  player whose loop flag is false leaves the flag false.\<close>

theorem C2_counterexample:
  "scrollHandler (selector_instance ''scroll'' [example_action 0 (3/10) ''loop'' (Some [Number 0, Number 10])])
     (example_page 800 (-100) 200) paused_player
     = Normal \<lparr>loop = False, isPaused = True, totalFrames = Number 200, calls = []\<rparr>"
  by code_simp

section \<open>Exceptions inside the handlers\<close>

text \<open>
  Claim C3, as the code has it. Each of the four handlers is one \<^verbatim>\<open>try\<close> block with an
  empty \<^verbatim>\<open>catch\<close>: it always completes normally, and the player is then in the state in
  which the statements of the block left it, up to the exception if there was one. When
  \<^verbatim>\<open>boundingBoxUtils\<close> gives no sample and action (it returns \<^verbatim>\<open>undefined\<close>, or raises
  itself), that state is the one before the handler ran.
\<close>

theorem C3_handlers_catch:
  "scrollHandler this h s = Normal (state_of (scrollHandler_body this h s))
   \<and> hoverStartHandler this h s = Normal (state_of (hoverStartHandler_body this h s))
   \<and> hoverEndHandler this h s = Normal (state_of (hoverEndHandler_body this h s))
   \<and> mousePositionHandler this h ev s = Normal (state_of (mousePositionHandler_body this h ev s))
   \<and> ((\<forall>bb. boundingBoxUtils this h \<noteq> Inr (Some bb)) \<longrightarrow>
        scrollHandler this h s = Normal s
        \<and> hoverStartHandler this h s = Normal s
        \<and> hoverEndHandler this h s = Normal s
        \<and> mousePositionHandler this h ev s = Normal s)"
proof -
  have caught:
    "scrollHandler this h s = Normal (state_of (scrollHandler_body this h s))"
    "hoverStartHandler this h s = Normal (state_of (hoverStartHandler_body this h s))"
    "hoverEndHandler this h s = Normal (state_of (hoverEndHandler_body this h s))"
    "mousePositionHandler this h ev s = Normal (state_of (mousePositionHandler_body this h ev s))"
    by (simp_all add: scrollHandler_def hoverStartHandler_def hoverEndHandler_def
          mousePositionHandler_def try_catch_state)
  have unchanged: "scrollHandler this h s = Normal s
        \<and> hoverStartHandler this h s = Normal s
        \<and> hoverEndHandler this h s = Normal s
        \<and> mousePositionHandler this h ev s = Normal s"
    if "\<forall>bb. boundingBoxUtils this h \<noteq> Inr (Some bb)"
    using that
    by (simp add: caught scrollHandler_body_def hoverStartHandler_body_def
          hoverEndHandler_body_def mousePositionHandler_body_def
          split: sum.splits option.splits)
  from caught unchanged show ?thesis by blast
qed

theorem C3_handlers_catch_witness:
  "scrollHandler (selector_instance ''scroll'' [example_action 0 (3/10) ''stop'' None])
     (example_page 800 (-100) 200) paused_player = Normal paused_player
   \<and> hoverStartHandler (selector_instance ''scroll'' [example_action 0 (3/10) ''stop'' None])
     (example_page 800 (-100) 200) paused_player = Normal paused_player
   \<and> hoverEndHandler (selector_instance ''scroll'' [example_action 0 (3/10) ''stop'' None])
     (example_page 800 (-100) 200) paused_player = Normal paused_player
   \<and> mousePositionHandler (selector_instance ''scroll'' [example_action 0 (3/10) ''stop'' None])
     (example_page 800 (-100) 200) (Some \<lparr>pageX = 0, pageY = 0\<rparr>) paused_player
     = Normal paused_player"
proof -
  have none: "\<forall>bb. boundingBoxUtils (selector_instance ''scroll'' [example_action 0 (3/10) ''stop'' None])
     (example_page 800 (-100) 200) \<noteq> Inr (Some bb)"
    by (simp add: no_match_example)
  from C3_handlers_catch [of "selector_instance ''scroll'' [example_action 0 (3/10) ''stop'' None]"
      "example_page 800 (-100) 200" paused_player "Some \<lparr>pageX = 0, pageY = 0\<rparr>"] none
  show ?thesis by blast
qed

text \<open>An exception that leaves the player changed: a scroll tick resolves a \<^verbatim>\<open>stop\<close>
  action without \<^verbatim>\<open>frames\<close>; the loop flag is set, then \<^verbatim>\<open>action.frames[0]\<close> raises a
  \<^verbatim>\<open>TypeError\<close>, which the handler swallows.\<close>

theorem C3_counterexample:
  "scrollHandler_body (selector_instance ''scroll'' [example_action 0 1 ''stop'' None])
     (example_page 800 100 400) paused_player
     = Throws TypeError \<lparr>loop = True, isPaused = True, totalFrames = Number 200, calls = []\<rparr>
   \<and> scrollHandler (selector_instance ''scroll'' [example_action 0 1 ''stop'' None])
     (example_page 800 100 400) paused_player
     = Normal \<lparr>loop = True, isPaused = True, totalFrames = Number 200, calls = []\<rparr>
   \<and> paused_player = \<lparr>loop = False, isPaused = True, totalFrames = Number 200, calls = []\<rparr>"
  by code_simp

section \<open>The percentage of the sample\<close>

text \<open>
  Claim C4, as the code has it. Whenever \<^verbatim>\<open>boundingBoxUtils\<close> returns a sample, in any
  mode (\<^verbatim>\<open>mouseposition\<close> included: the method takes no pointer event), its
  \<^verbatim>\<open>currentPercent\<close> is \<open>(innerHeight - top) / (innerHeight + height)\<close> of the
  container's bounding box, computed in doubles; the divisor is not zero and the value is
  a number from 0 to 1. Where the difference and the sum are doubles themselves (as for
  all integers below \<open>2^53\<close>), it is the exact quotient, rounded once.
\<close>

theorem C4_currentPercent_viewport:
  assumes "boundingBoxUtils this h = Inr (Some bb)"
    and "container this = HTMLElement c"
  shows "bb_currentPercent bb =
           js_div (js_sub (Number (innerHeight h)) (Number (rect_top (getBoundingClientRect h c))))
                  (js_add (Number (innerHeight h)) (Number (rect_height (getBoundingClientRect h c))))
         \<and> js_add (Number (innerHeight h)) (Number (rect_height (getBoundingClientRect h c)))
             \<noteq> Number 0
         \<and> (\<exists>p. bb_currentPercent bb = Number p \<and> 0 \<le> p \<and> p \<le> 1)
         \<and> (round_to_double (innerHeight h - rect_top (getBoundingClientRect h c))
               = Number (innerHeight h - rect_top (getBoundingClientRect h c))
             \<and> round_to_double (innerHeight h + rect_height (getBoundingClientRect h c))
               = Number (innerHeight h + rect_height (getBoundingClientRect h c))
             \<longrightarrow> innerHeight h + rect_height (getBoundingClientRect h c) \<noteq> 0
                 \<and> bb_currentPercent bb =
                     round_to_double
                       ((innerHeight h - rect_top (getBoundingClientRect h c))
                        / (innerHeight h + rect_height (getBoundingClientRect h c))))"
proof -
  let ?current = "js_sub (Number (innerHeight h)) (Number (rect_top (getBoundingClientRect h c)))"
  let ?maxv = "js_add (Number (innerHeight h)) (Number (rect_height (getBoundingClientRect h c)))"
  let ?cp = "js_div ?current ?maxv"
  from assms obtain acts a where
    range: "\<not> js_lt ?cp (Number 0)" "\<not> js_gt ?cp (Number 1)"
    and found: "find (satisfies ?cp) acts = Some a"
    and cp: "bb_currentPercent bb = ?cp"
    by (auto simp: boundingBoxUtils_def Let_def split: option.splits if_splits)
  have not_nan: "?cp \<noteq> NaN"
    using found by (auto simp: find_satisfies_NaN)
  have nz: "?maxv \<noteq> Number 0"
  proof
    assume "?maxv = Number 0"
    with js_div_by_zero [of ?current] range not_nan show False
      by (auto simp: js_gt_def)
  qed
  have unit: "\<exists>p. bb_currentPercent bb = Number p \<and> 0 \<le> p \<and> p \<le> 1"
    using in_unit_interval [OF range not_nan] cp by simp
  have exact: "innerHeight h + rect_height (getBoundingClientRect h c) \<noteq> 0
                 \<and> bb_currentPercent bb =
                     round_to_double
                       ((innerHeight h - rect_top (getBoundingClientRect h c))
                        / (innerHeight h + rect_height (getBoundingClientRect h c)))"
    if "round_to_double (innerHeight h - rect_top (getBoundingClientRect h c))
               = Number (innerHeight h - rect_top (getBoundingClientRect h c))
             \<and> round_to_double (innerHeight h + rect_height (getBoundingClientRect h c))
               = Number (innerHeight h + rect_height (getBoundingClientRect h c))"
    using that nz cp by auto
  from cp nz unit exact show ?thesis by blast
qed

theorem C4_currentPercent_viewport_witness:
  "boundingBoxUtils
     (selector_instance ''mouseposition'' [example_action (1/2) (7/10) ''seek-yaxis'' None])
     (example_page 800 100 400)
   = Inr (Some \<lparr>bb_height = 400, bb_bottom = 500,
                 bb_currentPercent = Number (5254199565265579 / 9007199254740992),
                 bb_action = example_action (1/2) (7/10) ''seek-yaxis'' None\<rparr>)
   \<and> round_to_double (7 / 12) = Number (5254199565265579 / 9007199254740992)"
proof -
  let ?a = "example_action (1/2) (7/10) ''seek-yaxis'' None"
  let ?I = "selector_instance ''mouseposition'' [?a]"
  let ?h = "example_page 800 100 400"
  let ?bb = "\<lparr>bb_height = 400, bb_bottom = 500,
              bb_currentPercent = Number (5254199565265579 / 9007199254740992), bb_action = ?a\<rparr>"
  have 1: "boundingBoxUtils ?I ?h = Inr (Some ?bb)" by code_simp
  have 2: "container ?I = HTMLElement 3" by (simp add: selector_instance_def)
  have 3: "round_to_double (innerHeight ?h - rect_top (getBoundingClientRect ?h 3))
             = Number (innerHeight ?h - rect_top (getBoundingClientRect ?h 3))
           \<and> round_to_double (innerHeight ?h + rect_height (getBoundingClientRect ?h 3))
             = Number (innerHeight ?h + rect_height (getBoundingClientRect ?h 3))"
    by code_simp
  have 4: "(innerHeight ?h - rect_top (getBoundingClientRect ?h 3))
             / (innerHeight ?h + rect_height (getBoundingClientRect ?h 3)) = 7 / 12"
    by (simp add: example_page_def)
  from C4_currentPercent_viewport [OF 1 2] 3
  have "bb_currentPercent ?bb =
          round_to_double ((innerHeight ?h - rect_top (getBoundingClientRect ?h 3))
             / (innerHeight ?h + rect_height (getBoundingClientRect ?h 3)))"
    by blast
  then have "round_to_double (7 / 12) = Number (5254199565265579 / 9007199254740992)"
    unfolding 4 by simp
  with 1 show ?thesis by simp
qed

text \<open>
  In the mode \<^verbatim>\<open>mouseposition\<close>, with the viewport at 7/12, a pointer 50 pixels below
  the top of a container of height 400 and 100 pixels right of its left edge: normalised
  by the height the pointer is at 1/8, normalised by a width of 400 at 1/4, both outside
  the range from 1/2 to 7/10 of the only action. The action is resolved all the same, and
  the host is asked to seek.
\<close>

theorem C4_counterexample:
  "mousePositionHandler
     (selector_instance ''mouseposition'' [example_action (1/2) (7/10) ''seek-yaxis'' None])
     (example_page 800 100 400) (Some \<lparr>pageX = 110, pageY = 80\<rparr>) paused_player
   = Normal \<lparr>loop = False, isPaused = True, totalFrames = Number 200, calls = [Seek ''13%'']\<rparr>
   \<and> boundingBoxUtils
       (selector_instance ''mouseposition'' [example_action (1/2) (7/10) ''seek-yaxis'' None])
       (example_page 800 100 400)
     = Inr (Some \<lparr>bb_height = 400, bb_bottom = 500,
                   bb_currentPercent = js_div (Number 700) (Number 1200),
                   bb_action = example_action (1/2) (7/10) ''seek-yaxis'' None\<rparr>)
   \<and> offset_walk (offsetBoxOf (example_page 800 100 400) 3) (Number 0) (Number 0)
       = (Number 10, Number 30)
   \<and> js_div (js_sub (Number 80) (Number 30)) (Number 400) = Number (1/8)
   \<and> js_div (js_sub (Number 110) (Number 10)) (Number 400) = Number (1/4)
   \<and> \<not> satisfies (Number (1/8)) (example_action (1/2) (7/10) ''seek-yaxis'' None)
   \<and> \<not> satisfies (Number (1/4)) (example_action (1/2) (7/10) ''seek-yaxis'' None)"
  by code_simp

section \<open>Scroll mode, action \<^verbatim>\<open>seek\<close>\<close>

text \<open>
  Claim C5, as the code has it. A scroll tick that resolves an action of type \<^verbatim>\<open>seek\<close>
  on an engine that answers normally sets the loop flag, primes the frame range with
  \<^verbatim>\<open>playSegments(frames, true)\<close> and then calls \<^verbatim>\<open>goToAndStop(frame, true)\<close> with
  \<open>frame = ceil(((currentPercent - start) / (end - start)) * totalFrames)\<close>, every
  operation in doubles, and does nothing else. In the scenario of the specification (top
  100, height 400, viewport height 800, range from 0.5 to 0.7, 200 frames) the percentage
  is the double next to 7/12 and the frame is 84.
\<close>

theorem C5_scroll_seek:
  assumes "boundingBoxUtils this h = Inr (Some bb)"
    and "action_type (bb_action bb) = ''seek''"
    and "is_AnimationItem (player this)"
    and "frame = js_ceil (js_mul (js_div (js_sub (bb_currentPercent bb) (action_start (bb_action bb)))
                                    (js_sub (action_end (bb_action bb)) (action_start (bb_action bb))))
                            (totalFrames s))"
    and "\<not> engine_raises h (PlaySegments (action_frames (bb_action bb)) (Some True))"
    and "\<not> engine_raises h (GoToAndStop (Some frame) (Some True))"
  shows "scrollHandler this h s =
           Normal (s\<lparr>loop := True,
                     calls := calls s @ [PlaySegments (action_frames (bb_action bb)) (Some True),
                                         GoToAndStop (Some frame) (Some True)]\<rparr>)"
proof -
  obtain w where w: "player this = AnimationItem w"
    using assms(3) by (cases "player this") simp_all
  show ?thesis
    using assms w
    by (simp add: scrollHandler_def scrollHandler_body_def Let_def player_call_def
          record_call_def player_totalFrames_def seek_frame_def)
qed

text \<open>The scenario of the specification, and the same page scrolled to top 20, where
  the percentage is 0.65 and the doubles give \<open>150.00000000000003\<close>, so frame 151.\<close>

theorem C5_scroll_seek_witness:
  "scrollHandler
     (selector_instance ''scroll'' [example_action (1/2) (7/10) ''seek'' (Some [Number 0, Number 100])])
     (example_page 800 100 400) paused_player
   = Normal \<lparr>loop = True, isPaused = True, totalFrames = Number 200,
             calls = [PlaySegments (Some [Number 0, Number 100]) (Some True),
                      GoToAndStop (Some (Number 84)) (Some True)]\<rparr>
   \<and> scrollHandler
     (selector_instance ''scroll'' [example_action (1/2) (7/10) ''seek'' (Some [Number 0, Number 100])])
     (example_page 800 20 400) paused_player
   = Normal \<lparr>loop = True, isPaused = True, totalFrames = Number 200,
             calls = [PlaySegments (Some [Number 0, Number 100]) (Some True),
                      GoToAndStop (Some (Number 151)) (Some True)]\<rparr>"
proof -
  let ?a = "example_action (1/2) (7/10) ''seek'' (Some [Number 0, Number 100])"
  let ?I = "selector_instance ''scroll'' [?a]"
  have 2: "action_type (bb_action \<lparr>bb_height = ht, bb_bottom = b, bb_currentPercent = cp,
                                     bb_action = ?a\<rparr>) = ''seek''" for ht b cp
    by (simp add: example_action_def)
  have 3: "is_AnimationItem (player ?I)" by (simp add: selector_instance_def)
  have 5: "\<not> engine_raises (example_page ih y ht) c" for ih y ht c
    by (simp add: example_page_def)
  have first: "scrollHandler ?I (example_page 800 100 400) paused_player
     = Normal \<lparr>loop = True, isPaused = True, totalFrames = Number 200,
             calls = [PlaySegments (Some [Number 0, Number 100]) (Some True),
                      GoToAndStop (Some (Number 84)) (Some True)]\<rparr>"
  proof -
    let ?bb = "\<lparr>bb_height = 400, bb_bottom = 500,
                bb_currentPercent = js_div (Number 700) (Number 1200), bb_action = ?a\<rparr>"
    have 1: "boundingBoxUtils ?I (example_page 800 100 400) = Inr (Some ?bb)" by code_simp
    have 4: "Number 84 =
        js_ceil (js_mul (js_div (js_sub (bb_currentPercent ?bb) (action_start (bb_action ?bb)))
                                (js_sub (action_end (bb_action ?bb)) (action_start (bb_action ?bb))))
                        (totalFrames paused_player))"
      by code_simp
    from C5_scroll_seek [OF 1 2 3 4 5 5]
    show ?thesis by (simp add: paused_player_def example_action_def)
  qed
  have second: "scrollHandler ?I (example_page 800 20 400) paused_player
     = Normal \<lparr>loop = True, isPaused = True, totalFrames = Number 200,
             calls = [PlaySegments (Some [Number 0, Number 100]) (Some True),
                      GoToAndStop (Some (Number 151)) (Some True)]\<rparr>"
  proof -
    let ?bb = "\<lparr>bb_height = 400, bb_bottom = 420,
                bb_currentPercent = js_div (Number 780) (Number 1200), bb_action = ?a\<rparr>"
    have 1: "boundingBoxUtils ?I (example_page 800 20 400) = Inr (Some ?bb)" by code_simp
    have 4: "Number 151 =
        js_ceil (js_mul (js_div (js_sub (bb_currentPercent ?bb) (action_start (bb_action ?bb)))
                                (js_sub (action_end (bb_action ?bb)) (action_start (bb_action ?bb))))
                        (totalFrames paused_player))"
      by code_simp
    from C5_scroll_seek [OF 1 2 3 4 5 5]
    show ?thesis by (simp add: paused_player_def example_action_def)
  qed
  from first second show ?thesis by simp
qed

text \<open>In that scenario the engine is sent to frame 84; no call sends it to frame 83.\<close>

theorem C5_counterexample:
  "GoToAndStop (Some (Number 83)) (Some True) \<notin> set (calls (state_of (scrollHandler
     (selector_instance ''scroll'' [example_action (1/2) (7/10) ''seek'' (Some [Number 0, Number 100])])
     (example_page 800 100 400) paused_player)))
   \<and> GoToAndStop (Some (Number 84)) (Some True) \<in> set (calls (state_of (scrollHandler
     (selector_instance ''scroll'' [example_action (1/2) (7/10) ''seek'' (Some [Number 0, Number 100])])
     (example_page 800 100 400) paused_player)))"
  by code_simp

section \<open>Hover mode, action \<^verbatim>\<open>stop\<close>\<close>

text \<open>
  Claim C6. In hover mode with a resolved action of type \<^verbatim>\<open>stop\<close> (with its
  \<^verbatim>\<open>frames\<close>, on an engine that answers normally), the enter handler calls
  \<^verbatim>\<open>goToAndStop(frames[0])\<close> and then \<^verbatim>\<open>stop()\<close>, and the leave handler, with the same
  resolved action and whatever the state of the player, calls
  \<^verbatim>\<open>playSegments(frames, true)\<close>. Neither does anything else.
\<close>

theorem C6_hover_stop_asymmetry:
  assumes "boundingBoxUtils this h = Inr (Some bb)"
    and "action_type (bb_action bb) = ''stop''"
    and "action_frames (bb_action bb) = Some (f # fs)"
    and "is_AnimationItem (player this)"
    and "\<not> engine_raises h (GoToAndStop (Some f) None)"
    and "\<not> engine_raises h Stop"
    and "\<not> engine_raises h (PlaySegments (Some (f # fs)) (Some True))"
  shows "hoverStartHandler this h s = Normal (s\<lparr>calls := calls s @ [GoToAndStop (Some f) None, Stop]\<rparr>)
         \<and> hoverEndHandler this h s'
             = Normal (s'\<lparr>calls := calls s' @ [PlaySegments (Some (f # fs)) (Some True)]\<rparr>)"
  using assms
  by (simp add: hoverStartHandler_def hoverStartHandler_body_def hoverEndHandler_def
        hoverEndHandler_body_def Let_def player_call_def record_call_def)

theorem C6_hover_stop_asymmetry_witness:
  "hoverStartHandler
     (selector_instance ''hover'' [example_action 0 1 ''stop'' (Some [Number 10, Number 40])])
     (example_page 800 100 400) paused_player
   = Normal \<lparr>loop = False, isPaused = True, totalFrames = Number 200,
             calls = [GoToAndStop (Some (Number 10)) None, Stop]\<rparr>
   \<and> hoverEndHandler
     (selector_instance ''hover'' [example_action 0 1 ''stop'' (Some [Number 10, Number 40])])
     (example_page 800 100 400)
     \<lparr>loop = False, isPaused = True, totalFrames = Number 200,
             calls = [GoToAndStop (Some (Number 10)) None, Stop]\<rparr>
   = Normal \<lparr>loop = False, isPaused = True, totalFrames = Number 200,
             calls = [GoToAndStop (Some (Number 10)) None, Stop,
                      PlaySegments (Some [Number 10, Number 40]) (Some True)]\<rparr>"
proof -
  let ?a = "example_action 0 1 ''stop'' (Some [Number 10, Number 40])"
  let ?I = "selector_instance ''hover'' [?a]"
  let ?h = "example_page 800 100 400"
  let ?bb = "\<lparr>bb_height = 400, bb_bottom = 500, bb_currentPercent = js_div (Number 700) (Number 1200), bb_action = ?a\<rparr>"
  have 1: "boundingBoxUtils ?I ?h = Inr (Some ?bb)"
    by code_simp
  have 2: "action_type (bb_action ?bb) = ''stop''" by (simp add: example_action_def)
  have 3: "action_frames (bb_action ?bb) = Some (Number 10 # [Number 40])"
    by (simp add: example_action_def)
  have 4: "is_AnimationItem (player ?I)" by (simp add: selector_instance_def)
  have 5: "\<not> engine_raises ?h (GoToAndStop (Some (Number 10)) None)"
    by (simp add: example_page_def)
  have 6: "\<not> engine_raises ?h Stop" by (simp add: example_page_def)
  have 7: "\<not> engine_raises ?h (PlaySegments (Some (Number 10 # [Number 40])) (Some True))"
    by (simp add: example_page_def)
  from C6_hover_stop_asymmetry [OF 1 2 3 4 5 6 7, of paused_player
      "\<lparr>loop = False, isPaused = True, totalFrames = Number 200,
             calls = [GoToAndStop (Some (Number 10)) None, Stop]\<rparr>"]
  show ?thesis by (simp add: paused_player_def)
qed

section \<open>Action resolution\<close>

text \<open>
  Claim C7. Whenever the sampler has a sample (the container is an element and the
  percentage is not outside \<open>[0, 1]\<close>), the action that \<^verbatim>\<open>boundingBoxUtils\<close> returns is
  the first one, in the order of the configured list, whose range contains the
  percentage: an action at index \<open>i\<close> that contains it, with no action before it that
  does, is the result, whatever comes after it (so of two overlapping actions the earlier
  one wins). Both ends of a range belong to it: with finite numbers the test is
  \<open>start \<le> currentPercent \<and> currentPercent \<le> end\<close>.
\<close>

theorem C7_resolution_first_match:
  assumes "container this = HTMLElement c"
    and "actions this = Some acts"
    and "cp = js_div (js_sub (Number (innerHeight h)) (Number (rect_top (getBoundingClientRect h c))))
                     (js_add (Number (innerHeight h)) (Number (rect_height (getBoundingClientRect h c))))"
    and "\<not> js_lt cp (Number 0)" and "\<not> js_gt cp (Number 1)"
    and "i < length acts" and "satisfies cp (acts ! i)"
    and "\<forall>j<i. \<not> satisfies cp (acts ! j)"
  shows "(\<exists>bb. boundingBoxUtils this h = Inr (Some bb) \<and> bb_action bb = acts ! i
               \<and> bb_currentPercent bb = cp)
         \<and> (\<forall>a x s e. satisfies (Number x) (a\<lparr>action_start := Number s, action_end := Number e\<rparr>)
                = (s \<le> x \<and> x \<le> e))"
proof -
  have "find (satisfies cp) acts = Some (acts ! i)"
    using assms(6-8) by (auto simp: find_Some_iff)
  then have "\<exists>bb. boundingBoxUtils this h = Inr (Some bb) \<and> bb_action bb = acts ! i
               \<and> bb_currentPercent bb = cp"
    using assms(1-5) by (simp add: boundingBoxUtils_def Let_def)
  moreover have "\<forall>a x s e. satisfies (Number x) (a\<lparr>action_start := Number s, action_end := Number e\<rparr>)
                = (s \<le> x \<and> x \<le> e)"
    by (simp add: satisfies_def js_ge_def)
  ultimately show ?thesis by blast
qed

text \<open>Three overlapping actions at 7/12 of the way: the first does not contain the
  sample, the second and the third do, and the second is returned.\<close>

text \<open>Three overlapping actions at 7/12 of the way: the first does not contain the
  sample, the second and the third do, and the second is returned.\<close>

theorem C7_resolution_first_match_witness:
  "boundingBoxUtils
     (selector_instance ''scroll''
        [example_action 0 (1/2) ''stop'' None, example_action (1/2) 1 ''loop'' None,
         example_action 0 1 ''play'' None])
     (example_page 800 100 400)
   = Inr (Some \<lparr>bb_height = 400, bb_bottom = 500, bb_currentPercent = js_div (Number 700) (Number 1200),
                 bb_action = example_action (1/2) 1 ''loop'' None\<rparr>)"
proof -
  let ?acts = "[example_action 0 (1/2) ''stop'' None, example_action (1/2) 1 ''loop'' None,
         example_action 0 1 ''play'' None]"
  let ?I = "selector_instance ''scroll'' ?acts"
  let ?h = "example_page 800 100 400"
  let ?cp = "js_div (Number 700) (Number 1200)"
  have 1: "container ?I = HTMLElement 3" by (simp add: selector_instance_def)
  have 2: "actions ?I = Some ?acts" by (simp add: selector_instance_def)
  have 3: "?cp = js_div (js_sub (Number (innerHeight ?h)) (Number (rect_top (getBoundingClientRect ?h 3))))
                     (js_add (Number (innerHeight ?h)) (Number (rect_height (getBoundingClientRect ?h 3))))"
    by code_simp
  have 4: "\<not> js_lt ?cp (Number 0)" by code_simp
  have 5: "\<not> js_gt ?cp (Number 1)" by code_simp
  have 6: "(1::nat) < length ?acts" by simp
  have 7: "satisfies ?cp (?acts ! 1)" by code_simp
  have "\<not> satisfies ?cp (?acts ! 0)" by code_simp
  then have 8: "\<forall>j<(1::nat). \<not> satisfies ?cp (?acts ! j)" by simp
  from C7_resolution_first_match [OF 1 2 3 4 5 6 7 8]
  obtain bb where bb: "boundingBoxUtils ?I ?h = Inr (Some bb)"
     "bb_action bb = ?acts ! 1" "bb_currentPercent bb = ?cp" by blast
  have "boundingBoxUtils ?I ?h
          = Inr (Some \<lparr>bb_height = 400, bb_bottom = 500, bb_currentPercent = ?cp,
                        bb_action = ?acts ! 1\<rparr>)"
    by code_simp
  with bb show ?thesis by simp
qed

section \<open>Pointer mode\<close>

text \<open>
  Claim C8, as the code has it. In the mode of the pointer, with a resolved action, on an
  instance whose \<^verbatim>\<open>playerInstance\<close> is the player host (the \<^verbatim>\<open>player\<close> option was a
  selector that finds it) and that answers normally, a pointer move makes exactly one
  call: \<^verbatim>\<open>seek\<close> with the string of \<open>ceil((ypos / height) * 100)\<close> followed by \<^verbatim>\<open>%\<close>
  for the type \<^verbatim>\<open>seek-yaxis\<close>, and of \<open>ceil((xpos / bottom) * 100)\<close> for the type
  \<^verbatim>\<open>seek-xaxis\<close>, every operation in doubles, where \<open>xpos\<close> and \<open>ypos\<close> are the page
  position of the pointer less the offset of the container, and \<open>height\<close> and \<open>bottom\<close>
  are those of the container's bounding box.
\<close>

theorem C8_pointer_seek:
  assumes "boundingBoxUtils this h = Inr (Some bb)"
    and "container this = HTMLElement c"
    and "offset_walk (offsetBoxOf h c) (Number 0) (Number 0) = (obj_left, obj_top)"
    and "playerInstance this = HTMLElement e"
    and "nodeName h e = LOTTIE_PLAYER_NODE"
    and "\<forall>str. \<not> engine_raises h (Seek str)"
  shows "(action_type (bb_action bb) = ''seek-yaxis'' \<longrightarrow>
            mousePositionHandler this h (Some ev) s =
              Normal (s\<lparr>calls := calls s @
                [Seek (js_toString (js_ceil (js_mul
                         (js_div (js_sub (Number (pageY ev)) obj_top)
                                 (Number (rect_height (getBoundingClientRect h c))))
                         (Number 100))) @ ''%'')]\<rparr>))
         \<and> (action_type (bb_action bb) = ''seek-xaxis'' \<longrightarrow>
            mousePositionHandler this h (Some ev) s =
              Normal (s\<lparr>calls := calls s @
                [Seek (js_toString (js_ceil (js_mul
                         (js_div (js_sub (Number (pageX ev)) obj_left)
                                 (Number (rect_bottom (getBoundingClientRect h c))))
                         (Number 100))) @ ''%'')]\<rparr>))"
proof -
  have geo: "bb_height bb = rect_height (getBoundingClientRect h c)"
            "bb_bottom bb = rect_bottom (getBoundingClientRect h c)"
    using assms(1,2)
    by (auto simp: boundingBoxUtils_def Let_def split: option.splits if_splits)
  show ?thesis
    using assms geo
    by (simp add: mousePositionHandler_def mousePositionHandler_body_def Let_def
          pointer_page_position_def playerInstance_seek_def record_call_def percentage_string_def)
qed

text \<open>
  A container of height 200 whose bottom is at 300. With the pointer 50 pixels below its
  top: one call, \<^verbatim>\<open>seek("25%")\<close>. With the pointer 14 pixels below its top the doubles
  give \<open>(14 / 200) * 100 = 7.000000000000001\<close>: one call, \<^verbatim>\<open>seek("8%")\<close>. With the pointer
  100 pixels right of its left edge, a third of the bottom coordinate: one call,
  \<^verbatim>\<open>seek("34%")\<close>.
\<close>

theorem C8_pointer_seek_witness:
  "mousePositionHandler
     (selector_instance ''mouseposition'' [example_action 0 1 ''seek-yaxis'' None])
     (example_page 800 100 200) (Some \<lparr>pageX = 110, pageY = 80\<rparr>) paused_player
   = Normal \<lparr>loop = False, isPaused = True, totalFrames = Number 200, calls = [Seek ''25%'']\<rparr>
   \<and> mousePositionHandler
     (selector_instance ''mouseposition'' [example_action 0 1 ''seek-yaxis'' None])
     (example_page 800 100 200) (Some \<lparr>pageX = 110, pageY = 44\<rparr>) paused_player
   = Normal \<lparr>loop = False, isPaused = True, totalFrames = Number 200, calls = [Seek ''8%'']\<rparr>
   \<and> mousePositionHandler
     (selector_instance ''mouseposition'' [example_action 0 1 ''seek-xaxis'' None])
     (example_page 800 100 200) (Some \<lparr>pageX = 110, pageY = 80\<rparr>) paused_player
   = Normal \<lparr>loop = False, isPaused = True, totalFrames = Number 200, calls = [Seek ''34%'']\<rparr>"
proof -
  let ?h = "example_page 800 100 200"
  have 3: "offset_walk (offsetBoxOf ?h 3) (Number 0) (Number 0) = (Number 10, Number 30)"
    by code_simp
  have 5: "nodeName ?h 1 = LOTTIE_PLAYER_NODE" by (simp add: example_page_def)
  have 6: "\<forall>str. \<not> engine_raises ?h (Seek str)" by (simp add: example_page_def)
  have s25: "js_toString (js_ceil (js_mul (js_div (js_sub (Number (pageY \<lparr>pageX = 110, pageY = 80\<rparr>)) (Number 30))
              (Number (rect_height (getBoundingClientRect ?h 3)))) (Number 100))) @ ''%'' = ''25%''"
    by code_simp
  have s8: "js_toString (js_ceil (js_mul (js_div (js_sub (Number (pageY \<lparr>pageX = 110, pageY = 44\<rparr>)) (Number 30))
              (Number (rect_height (getBoundingClientRect ?h 3)))) (Number 100))) @ ''%'' = ''8%''"
    by code_simp
  have s34: "js_toString (js_ceil (js_mul (js_div (js_sub (Number (pageX \<lparr>pageX = 110, pageY = 80\<rparr>)) (Number 10))
              (Number (rect_bottom (getBoundingClientRect ?h 3)))) (Number 100))) @ ''%'' = ''34%''"
    by code_simp
  let ?ay = "example_action 0 1 ''seek-yaxis'' None"
  let ?Iy = "selector_instance ''mouseposition'' [?ay]"
  let ?bby = "\<lparr>bb_height = 200, bb_bottom = 300,
               bb_currentPercent = js_div (Number 700) (Number 1000), bb_action = ?ay\<rparr>"
  have y1: "boundingBoxUtils ?Iy ?h = Inr (Some ?bby)" by code_simp
  have y2: "container ?Iy = HTMLElement 3" by (simp add: selector_instance_def)
  have y4: "playerInstance ?Iy = HTMLElement 1" by (simp add: selector_instance_def)
  have yty: "action_type (bb_action ?bby) = ''seek-yaxis''" by (simp add: example_action_def)
  from C8_pointer_seek [OF y1 y2 3 y4 5 6, of "\<lparr>pageX = 110, pageY = 80\<rparr>" paused_player] yty
  have a: "mousePositionHandler ?Iy ?h (Some \<lparr>pageX = 110, pageY = 80\<rparr>) paused_player
     = Normal \<lparr>loop = False, isPaused = True, totalFrames = Number 200, calls = [Seek ''25%'']\<rparr>"
    unfolding s25 by (simp add: paused_player_def)
  from C8_pointer_seek [OF y1 y2 3 y4 5 6, of "\<lparr>pageX = 110, pageY = 44\<rparr>" paused_player] yty
  have b: "mousePositionHandler ?Iy ?h (Some \<lparr>pageX = 110, pageY = 44\<rparr>) paused_player
     = Normal \<lparr>loop = False, isPaused = True, totalFrames = Number 200, calls = [Seek ''8%'']\<rparr>"
    unfolding s8 by (simp add: paused_player_def)
  let ?ax = "example_action 0 1 ''seek-xaxis'' None"
  let ?Ix = "selector_instance ''mouseposition'' [?ax]"
  let ?bbx = "\<lparr>bb_height = 200, bb_bottom = 300,
               bb_currentPercent = js_div (Number 700) (Number 1000), bb_action = ?ax\<rparr>"
  have x1: "boundingBoxUtils ?Ix ?h = Inr (Some ?bbx)" by code_simp
  have x2: "container ?Ix = HTMLElement 3" by (simp add: selector_instance_def)
  have x4: "playerInstance ?Ix = HTMLElement 1" by (simp add: selector_instance_def)
  have xty: "action_type (bb_action ?bbx) = ''seek-xaxis''" by (simp add: example_action_def)
  from C8_pointer_seek [OF x1 x2 3 x4 5 6, of "\<lparr>pageX = 110, pageY = 80\<rparr>" paused_player] xty
  have c: "mousePositionHandler ?Ix ?h (Some \<lparr>pageX = 110, pageY = 80\<rparr>) paused_player
     = Normal \<lparr>loop = False, isPaused = True, totalFrames = Number 200, calls = [Seek ''34%'']\<rparr>"
    unfolding s34 by (simp add: paused_player_def)
  from a b c show ?thesis by simp
qed

text \<open>
  The scenario of the claim on an instance built from the engine instance itself: the
  action is resolved, the pointer is 50 pixels below the top of the container of height
  200, and the handler makes no call at all; nor does it for the other axis.
\<close>

theorem C8_counterexample:
  "constructor (example_page 800 100 200)
     (Some \<lparr>opt_actions = Some [example_action 0 1 ''seek-yaxis'' None],
            opt_container = Undefined, opt_mode = Some ''mouseposition'',
            opt_player = AnimationItem (Some 3), opt_playerInstance = Undefined\<rparr>)
   = Inr (direct_instance ''mouseposition'' [example_action 0 1 ''seek-yaxis'' None])
   \<and> calls (state_of (mousePositionHandler
       (direct_instance ''mouseposition'' [example_action 0 1 ''seek-yaxis'' None])
       (example_page 800 100 200) (Some \<lparr>pageX = 110, pageY = 80\<rparr>) paused_player)) = []
   \<and> calls (state_of (mousePositionHandler
       (direct_instance ''mouseposition'' [example_action 0 1 ''seek-xaxis'' None])
       (example_page 800 100 200) (Some \<lparr>pageX = 110, pageY = 80\<rparr>) paused_player)) = []
   \<and> js_sub (Number 80) (Number 30) = Number 50"
  by code_simp

section \<open>Construction\<close>

text \<open>The field \<^verbatim>\<open>playerInstance\<close> is written in the branch of the selector only,
  and without it the pointer handler reaches no \<^verbatim>\<open>seek\<close>.\<close>

lemma throw_unless_player_fst:
  "throw_unless_player inst p = Inr (inst', p') \<Longrightarrow> inst' = inst"
  by (simp add: throw_unless_player_def split: if_splits)

lemma resolve_player_playerInstance:
  assumes "resolve_player h p = Inr (inst, p')" and "\<forall>sel. p \<noteq> Str sel"
  shows "inst = Undefined"
proof (cases p)
  case (Object c)
  with assms(1) show ?thesis
    by (cases c) (auto dest: throw_unless_player_fst)
qed (use assms in \<open>auto dest: throw_unless_player_fst split: if_splits\<close>)

lemma constructor_playerInstance:
  assumes "constructor h (Some opts) = Inr this" and "\<forall>sel. opt_player opts \<noteq> Str sel"
  shows "playerInstance this = Undefined"
proof -
  from assms(1) obtain inst p c where
    r: "resolve_player h (opt_player opts) = Inr (inst, p)" and t: "playerInstance this = inst"
    by (auto simp: constructor_def split: sum.splits)
  from resolve_player_playerInstance [OF r assms(2)] t show ?thesis by simp
qed

lemma seek_without_playerInstance:
  assumes "playerInstance this = Undefined"
  shows "mousePositionHandler this h ev s = Normal s"
  using assms
  by (simp add: mousePositionHandler_def mousePositionHandler_body_def Let_def
        playerInstance_seek_def
        split: sum.splits option.splits jsval.splits prod.splits)

text \<open>
  Claim C9, as the code has it. The constructor throws whenever a selector lookup for
  the container raises, and whenever the options hold no player (absent, \<^verbatim>\<open>null\<close> or
  falsy, a player host without an embedded player, or a selector on which the lookup
  raises). With a usable player reference (an \<^verbatim>\<open>AnimationItem\<close>, or a player host with
  an embedded one, given as element or found by the selector) it throws exactly when the
  lookup for the container raises. The statement is silent on a selector that finds no
  player host, and on the other values that are no player.
\<close>

theorem C9_constructor_throws:
  assumes "opts = (case arg of None \<Rightarrow> DEFAULT_OPTIONS | Some given \<Rightarrow> given)"
  shows "(usable_player_reference h (opt_player opts) \<longrightarrow>
            isl (constructor h arg) = selector_raises h (opt_container opts))
         \<and> (player_missing h (opt_player opts) \<longrightarrow> isl (constructor h arg))
         \<and> (selector_raises h (opt_container opts) \<longrightarrow> isl (constructor h arg))"
proof (intro conjI impI)
  have c: "constructor h arg =
     (case resolve_player h (opt_player opts) of
        Inl e \<Rightarrow> Inl e
      | Inr (inst, p) \<Rightarrow>
          (case resolve_container h p (opt_container opts) of
             Inl e \<Rightarrow> Inl e
           | Inr c \<Rightarrow>
               Inr \<lparr>player = p, playerInstance = inst, container = c,
                    mode = opt_mode opts, actions = opt_actions opts\<rparr>))"
    unfolding constructor_def assms Let_def by simp
  have rc: "isl (resolve_container h p (opt_container opts)) = selector_raises h (opt_container opts)" for p
    by (simp add: resolve_container_def selector_raises_def split: jsval.splits query_result.splits)
  {
    assume u: "usable_player_reference h (opt_player opts)"
    then have "\<exists>inst p. resolve_player h (opt_player opts) = Inr (inst, p)"
      by (cases "opt_player opts")
         (auto simp: throw_unless_player_def AnimationItem_truthy
               split: query_result.splits jsval.splits)
    then obtain inst p where "resolve_player h (opt_player opts) = Inr (inst, p)" by blast
    with rc [of p] show "isl (constructor h arg) = selector_raises h (opt_container opts)"
      by (cases "resolve_container h p (opt_container opts)") (simp_all add: c)
  }
  {
    assume m: "player_missing h (opt_player opts)"
    then have "isl (resolve_player h (opt_player opts))"
      by (cases "opt_player opts")
         (auto simp: throw_unless_player_def split: query_result.splits)
    then show "isl (constructor h arg)"
      by (cases "resolve_player h (opt_player opts)") (simp_all add: c)
  }
  {
    assume "selector_raises h (opt_container opts)"
    then have raised: "\<exists>e. resolve_container h p (opt_container opts) = Inl e" for p
      using rc [of p] by (simp add: isl_def)
    show "isl (constructor h arg)"
    proof (cases "resolve_player h (opt_player opts)")
      case (Inl e)
      then show ?thesis by (simp add: c)
    next
      case (Inr found)
      obtain inst p where found: "found = (inst, p)" by (cases found)
      from raised [of p] obtain e where "resolve_container h p (opt_container opts) = Inl e"
        by blast
      with Inr found show ?thesis by (simp add: c)
    qed
  }
qed

theorem C9_constructor_throws_witness:
  "constructor (example_page 800 100 400) (Some (example_options (Str ''#player'') (Str ''#box'')))
     = Inr \<lparr>player = AnimationItem (Some 3), playerInstance = HTMLElement 1,
            container = HTMLElement 2, mode = Some ''scroll'', actions = Some []\<rparr>
   \<and> isl (constructor (example_page 800 100 400) (Some (example_options (HTMLElement 1) (Str ''##''))))
   \<and> isl (constructor (example_page 800 100 400) (Some (example_options Undefined Undefined)))"
proof -
  let ?h = "example_page 800 100 400"
  have a: "\<not> isl (constructor ?h (Some (example_options (Str ''#player'') (Str ''#box''))))"
  proof -
    let ?o = "example_options (Str ''#player'') (Str ''#box'')"
    have o: "?o = (case Some ?o of None \<Rightarrow> DEFAULT_OPTIONS | Some given \<Rightarrow> given)" by simp
    have u: "usable_player_reference ?h (opt_player ?o)" by code_simp
    have r: "\<not> selector_raises ?h (opt_container ?o)" by code_simp
    from C9_constructor_throws [OF o, of ?h] u r show ?thesis by blast
  qed
  have b: "isl (constructor ?h (Some (example_options (HTMLElement 1) (Str ''##''))))"
  proof -
    let ?o = "example_options (HTMLElement 1) (Str ''##'')"
    have o: "?o = (case Some ?o of None \<Rightarrow> DEFAULT_OPTIONS | Some given \<Rightarrow> given)" by simp
    have u: "usable_player_reference ?h (opt_player ?o)" by code_simp
    have r: "selector_raises ?h (opt_container ?o)" by code_simp
    from C9_constructor_throws [OF o, of ?h] u r show ?thesis by blast
  qed
  have c: "isl (constructor ?h (Some (example_options Undefined Undefined)))"
  proof -
    let ?o = "example_options Undefined Undefined"
    have o: "?o = (case Some ?o of None \<Rightarrow> DEFAULT_OPTIONS | Some given \<Rightarrow> given)" by simp
    have m: "player_missing ?h (opt_player ?o)" by code_simp
    from C9_constructor_throws [OF o, of ?h] m show ?thesis by blast
  qed
  have e: "constructor ?h (Some (example_options (Str ''#player'') (Str ''#box'')))
     = Inr \<lparr>player = AnimationItem (Some 3), playerInstance = HTMLElement 1,
            container = HTMLElement 2, mode = Some ''scroll'', actions = Some []\<rparr>"
    by code_simp
  from e b c show ?thesis by simp
qed

text \<open>A usable player, and yet the constructor throws: the container is given as a
  string that is no selector.\<close>

theorem C9_counterexample:
  "usable_player_reference (example_page 800 100 400) (AnimationItem (Some 3))
   \<and> constructor (example_page 800 100 400)
       (Some (example_options (AnimationItem (Some 3)) (Str ''##'')))
     = Inl SyntaxError"
  by code_simp

text \<open>A selector that finds nothing: the check of line 25 tests the selector string
  itself, which is truthy, and the constructor returns an instance whose player is that
  string.\<close>

lemma constructor_keeps_unmatched_selector:
  "constructor (example_page 800 100 400) (Some (example_options (Str ''#missing'') Undefined))
     = Inr \<lparr>player = Str ''#missing'', playerInstance = Null, container = Undefined,
            mode = Some ''scroll'', actions = Some []\<rparr>
   \<and> \<not> usable_player_reference (example_page 800 100 400) (Str ''#missing'')"
  by code_simp

text \<open>
  Claim C10. When the \<^verbatim>\<open>player\<close> option is not a string (an engine instance, an
  element, or anything else), the instance that the constructor returns has no
  \<^verbatim>\<open>playerInstance\<close>, whatever the option \<^verbatim>\<open>playerInstance\<close> holds; every pointer
  move on such an instance, on any page and with any action, then completes normally
  and leaves the player as it was: no call to \<^verbatim>\<open>seek\<close>, no error.
\<close>

theorem C10_playerInstance_only_from_selector:
  assumes "constructor h (Some opts) = Inr this"
    and "\<forall>sel. opt_player opts \<noteq> Str sel"
  shows "playerInstance this = Undefined
         \<and> mousePositionHandler this h' ev s = Normal s"
  using constructor_playerInstance [OF assms] seek_without_playerInstance by simp

text \<open>An engine instance given as the player, a host given as \<^verbatim>\<open>playerInstance\<close>, and
  a pointer move with a matching \<^verbatim>\<open>seek-yaxis\<close> action.\<close>

theorem C10_playerInstance_only_from_selector_witness:
  "constructor (example_page 800 100 200)
     (Some \<lparr>opt_actions = Some [example_action 0 1 ''seek-yaxis'' None],
            opt_container = Undefined, opt_mode = Some ''mouseposition'',
            opt_player = AnimationItem (Some 3), opt_playerInstance = HTMLElement 1\<rparr>)
   = Inr (direct_instance ''mouseposition'' [example_action 0 1 ''seek-yaxis'' None])
   \<and> playerInstance (direct_instance ''mouseposition'' [example_action 0 1 ''seek-yaxis'' None])
       = Undefined
   \<and> mousePositionHandler
       (direct_instance ''mouseposition'' [example_action 0 1 ''seek-yaxis'' None])
       (example_page 800 100 200) (Some \<lparr>pageX = 160, pageY = 80\<rparr>) paused_player
     = Normal paused_player
   \<and> boundingBoxUtils
       (direct_instance ''mouseposition'' [example_action 0 1 ''seek-yaxis'' None])
       (example_page 800 100 200)
     = Inr (Some \<lparr>bb_height = 200, bb_bottom = 300, bb_currentPercent = js_div (Number 700) (Number 1000),
                   bb_action = example_action 0 1 ''seek-yaxis'' None\<rparr>)"
proof -
  let ?opts = "\<lparr>opt_actions = Some [example_action 0 1 ''seek-yaxis'' None],
            opt_container = Undefined, opt_mode = Some ''mouseposition'',
            opt_player = AnimationItem (Some 3), opt_playerInstance = HTMLElement 1\<rparr>"
  let ?I = "direct_instance ''mouseposition'' [example_action 0 1 ''seek-yaxis'' None]"
  have 1: "constructor (example_page 800 100 200) (Some ?opts) = Inr ?I"
    by (simp add: constructor_def resolve_container_def direct_instance_def)
  have 2: "\<forall>sel. opt_player ?opts \<noteq> Str sel" by simp
  have 3: "boundingBoxUtils ?I (example_page 800 100 200)
     = Inr (Some \<lparr>bb_height = 200, bb_bottom = 300, bb_currentPercent = js_div (Number 700) (Number 1000),
                   bb_action = example_action 0 1 ''seek-yaxis'' None\<rparr>)"
    by code_simp
  from C10_playerInstance_only_from_selector [OF 1 2,
      of "example_page 800 100 200" "Some \<lparr>pageX = 160, pageY = 80\<rparr>" paused_player] 1 3
  show ?thesis by simp
qed

end
